theory Spec2Isabelle
  imports Complex_Main "HOL-Library.Multiset" "HOL-Library.Sublist" "HOL-Library.Char_ord"
    "HOL-Library.List_Lexorder"
begin

section \<open>Cells, rows and data frames\<close>

text \<open>
  A cell of a pandas data frame or of a database row: a missing value (\<open>None\<close>, \<open>NaN\<close>,
  SQL \<open>NULL\<close>), a number or a text. Only exact arithmetic is modelled; rounding of
  floating-point numbers is outside the model.
\<close>

datatype val = Null | Num real | Str string

text \<open>
  A source row carries the value of the timestamp column (\<open>stamp\<close>, in seconds) and its
  other columns by name. The timestamp column is a datetime column without missing values,
  which is what every caller in the repository passes (they drop rows whose date failed to
  parse before loading).
\<close>

record srow =
  stamp :: int
  cells :: "(string \<times> val) list"

text \<open>
  A data frame: its columns, each with the flag "the dtype is a number dtype"
  (\<open>select_dtypes(include=['number'])\<close>), and its rows in index order.
\<close>

record frame =
  columns :: "(string \<times> bool) list"
  rows :: "srow list"

definition cell :: "srow \<Rightarrow> string \<Rightarrow> val" where
  "cell r c = (case map_of (cells r) c of Some v \<Rightarrow> v | None \<Rightarrow> Null)"

definition column_names :: "frame \<Rightarrow> string list" where
  "column_names df = map fst (columns df)"

definition numeric_columns :: "frame \<Rightarrow> string list" where
  "numeric_columns df = map fst (filter snd (columns df))"

definition isnull :: "val \<Rightarrow> bool" where
  "isnull v = (v = Null)"

text \<open>\<open>df[col] < 0\<close>: false on a missing value, as a comparison with \<open>NaN\<close> is.\<close>

definition negative :: "val \<Rightarrow> bool" where
  "negative v = (case v of Num x \<Rightarrow> x < 0 | _ \<Rightarrow> False)"

subsection \<open>Strings\<close>

text \<open>\<open>str.lower()\<close> on ASCII text, and the substring test \<open>sub in s\<close>.\<close>

definition lower_char :: "char \<Rightarrow> char" where
  "lower_char c =
     (case map_of (zip ''ABCDEFGHIJKLMNOPQRSTUVWXYZ'' ''abcdefghijklmnopqrstuvwxyz'') c of
        Some d \<Rightarrow> d
      | None \<Rightarrow> c)"

definition lower :: "string \<Rightarrow> string" where
  "lower s = map lower_char s"

fun is_prefix :: "string \<Rightarrow> string \<Rightarrow> bool" where
  "is_prefix [] s = True"
| "is_prefix (a # as) [] = False"
| "is_prefix (a # as) (b # bs) = (a = b \<and> is_prefix as bs)"

fun contains :: "string \<Rightarrow> string \<Rightarrow> bool" where
  "contains sub [] = (sub = [])"
| "contains sub (c # cs) = (is_prefix sub (c # cs) \<or> contains sub cs)"

section \<open>Record validator (\<open>IncrementalLoader._validate_records\<close>)\<close>

definition critical_cols :: "(string \<times> string list) list" where
  "critical_cols =
     [(''fact_sales'', [''time_key'', ''customer_key'', ''product_key'', ''store_key'',
                        ''quantity'', ''unit_price'']),
      (''dim_product'', [''product_key'', ''product_name'']),
      (''dim_customer'', [''customer_key'', ''customer_name'']),
      (''dim_store'', [''store_key'', ''store_name''])]"

definition get_critical_columns :: "string \<Rightarrow> string list" where
  "get_critical_columns table_name =
     (case map_of critical_cols table_name of Some cs \<Rightarrow> cs | None \<Rightarrow> [])"

text \<open>\<open>valid_mask &= ~mask\<close> on boolean series over the same index.\<close>

definition and_not :: "bool list \<Rightarrow> bool list \<Rightarrow> bool list" where
  "and_not valid_mask other = map (\<lambda>(v, m). v \<and> \<not> m) (zip valid_mask other)"

definition any :: "bool list \<Rightarrow> bool" where
  "any bs = list_ex (\<lambda>b. b) bs"

definition null_mask :: "frame \<Rightarrow> string \<Rightarrow> bool list" where
  "null_mask df col = map (\<lambda>r. isnull (cell r col)) (rows df)"

definition negative_mask :: "frame \<Rightarrow> string \<Rightarrow> bool list" where
  "negative_mask df col = map (\<lambda>r. negative (cell r col)) (rows df)"

text \<open>The body of the loop over the critical columns.\<close>

definition critical_step :: "frame \<Rightarrow> bool list \<Rightarrow> string \<Rightarrow> bool list" where
  "critical_step df valid_mask col =
     (if col \<in> set (column_names df)
      then (if any (null_mask df col) then and_not valid_mask (null_mask df col)
            else valid_mask)
      else valid_mask)"

definition amount_like :: "string \<Rightarrow> bool" where
  "amount_like col =
     (contains ''amount'' (lower col) \<or> contains ''quantity'' (lower col)
      \<or> contains ''price'' (lower col))"

text \<open>The body of the loop over the numeric columns.\<close>

definition numeric_step :: "frame \<Rightarrow> bool list \<Rightarrow> string \<Rightarrow> bool list" where
  "numeric_step df valid_mask col =
     (if amount_like col
      then (if any (negative_mask df col) then and_not valid_mask (negative_mask df col)
            else valid_mask)
      else valid_mask)"

text \<open>\<open>df[mask]\<close>: the rows whose mask entry is true, in order.\<close>

definition select_rows :: "frame \<Rightarrow> bool list \<Rightarrow> frame" where
  "select_rows df bs = df\<lparr>rows := map fst (filter snd (zip (rows df) bs))\<rparr>"

definition validate_mask :: "frame \<Rightarrow> string \<Rightarrow> bool list" where
  "validate_mask df table_name =
     foldl (numeric_step df)
       (foldl (critical_step df) (replicate (length (rows df)) True)
          (get_critical_columns table_name))
       (numeric_columns df)"

definition validate_records :: "frame \<Rightarrow> string \<Rightarrow> frame \<times> frame" where
  "validate_records df table_name =
     (let valid_mask = validate_mask df table_name
      in (select_rows df valid_mask, select_rows df (map Not valid_mask)))"

subsection \<open>The rejection rule of the specification\<close>

text \<open>
  The rule as the specification words it, written without the functions of the loader, to
  be compared with \<open>validate_records\<close>. A name matches a keyword without regard to case
  when the keyword is a contiguous part of the name after every capital letter \<open>A\<close> to \<open>Z\<close>
  (codes 65 to 90) is replaced by its small letter (code plus 32).
\<close>

definition spec_lower_char :: "char \<Rightarrow> char" where
  "spec_lower_char c =
     (if 65 \<le> (of_char c :: nat) \<and> (of_char c :: nat) \<le> 90
      then char_of (of_char c + 32 :: nat) else c)"

definition spec_keywords :: "string list" where
  "spec_keywords = [''amount'', ''quantity'', ''price'']"

definition spec_amount_like :: "string \<Rightarrow> bool" where
  "spec_amount_like col = list_ex (\<lambda>kw. sublist kw (map spec_lower_char col)) spec_keywords"

text \<open>The static mapping from a table to its critical columns; other tables have none.\<close>

definition spec_critical :: "string \<Rightarrow> string list" where
  "spec_critical t =
     (if t = ''fact_sales''
      then [''time_key'', ''customer_key'', ''product_key'', ''store_key'', ''quantity'',
            ''unit_price'']
      else if t = ''dim_product'' then [''product_key'', ''product_name'']
      else if t = ''dim_customer'' then [''customer_key'', ''customer_name'']
      else if t = ''dim_store'' then [''store_key'', ''store_name'']
      else [])"

text \<open>A number below zero; zero, a missing value and a text are not.\<close>

definition spec_negative :: "val \<Rightarrow> bool" where
  "spec_negative v = (v \<in> Num ` {x. x < 0})"

text \<open>
  A row is rejected when a critical column of the table that is a column of the data is
  null in it, or a column of a number type whose name matches a keyword is negative in it.
\<close>

definition spec_rejected :: "frame \<Rightarrow> string \<Rightarrow> srow \<Rightarrow> bool" where
  "spec_rejected df t r =
     (list_ex (\<lambda>c. c \<in> fst ` set (columns df) \<and> cell r c = Null) (spec_critical t)
      \<or> list_ex (\<lambda>c. spec_amount_like c \<and> spec_negative (cell r c))
           (map fst (filter snd (columns df))))"

section \<open>Watermark store (\<open>WatermarkManager\<close>)\<close>

text \<open>
  One row of the table \<open>etl_watermark\<close>. Timestamps are seconds, dates are days
  (\<open>date_of\<close>). The counters are non-null integers, so that \<open>result[3] or 0\<close> reads them
  as they are. The column \<open>updated_at\<close> only records the wall-clock time of the update
  and is left out.
\<close>

record wrow =
  table_name :: string
  source_system :: "string option"
  last_loaded_timestamp :: "int option"
  last_loaded_date :: "int option"
  last_invoice_number :: "string option"
  records_processed :: nat
  records_rejected :: nat

text \<open>The dictionary that \<open>get_last_watermark\<close> returns.\<close>

record watermark =
  timestamp :: "int option"
  date :: "int option"
  invoice :: "string option"
  processed :: nat
  rejected :: nat

definition date_of :: "int \<Rightarrow> int" where
  "date_of t = t div 86400"

text \<open>Python's \<open>if source_system:\<close> is false on \<open>None\<close> and on the empty string.\<close>

definition truthy :: "string option \<Rightarrow> bool" where
  "truthy s = (case s of None \<Rightarrow> False | Some x \<Rightarrow> x \<noteq> [])"

text \<open>
  \<open>ORDER BY last_loaded_timestamp DESC\<close> in PostgreSQL: nulls sort first, then the later
  timestamp. \<open>sorts_before a b\<close> says that \<open>a\<close> stands strictly before \<open>b\<close>.
\<close>

definition sorts_before :: "int option \<Rightarrow> int option \<Rightarrow> bool" where
  "sorts_before a b =
     (case a of
        None \<Rightarrow> b \<noteq> None
      | Some x \<Rightarrow> (case b of None \<Rightarrow> False | Some y \<Rightarrow> y < x))"

text \<open>\<open>LIMIT 1\<close> of that order; among equal timestamps the row stored first.\<close>

fun first_desc :: "wrow list \<Rightarrow> wrow option" where
  "first_desc [] = None"
| "first_desc (w # ws) =
     (case first_desc ws of
        None \<Rightarrow> Some w
      | Some v \<Rightarrow>
          if sorts_before (last_loaded_timestamp v) (last_loaded_timestamp w) then Some v
          else Some w)"

definition to_watermark :: "wrow \<Rightarrow> watermark" where
  "to_watermark w =
     \<lparr>timestamp = last_loaded_timestamp w, date = last_loaded_date w,
      invoice = last_invoice_number w, processed = records_processed w,
      rejected = records_rejected w\<rparr>"

definition get_last_watermark :: "wrow list \<Rightarrow> string \<Rightarrow> string option \<Rightarrow> watermark option" where
  "get_last_watermark store tname src =
     (let result =
        (if truthy src
         then find (\<lambda>w. table_name w = tname \<and> source_system w = src) store
         else first_desc (filter (\<lambda>w. table_name w = tname) store))
      in case result of Some w \<Rightarrow> Some (to_watermark w) | None \<Rightarrow> None)"

definition coalesce :: "'a option \<Rightarrow> 'a option \<Rightarrow> 'a option" where
  "coalesce new old = (case new of Some x \<Rightarrow> Some x | None \<Rightarrow> old)"

text \<open>The \<open>SET\<close> clause of the \<open>UPDATE\<close>, on one row.\<close>

definition set_watermark ::
  "int option \<Rightarrow> int option \<Rightarrow> string option \<Rightarrow> nat \<Rightarrow> nat \<Rightarrow> wrow \<Rightarrow> wrow" where
  "set_watermark ts dt nk proc rej w =
     w\<lparr>last_loaded_timestamp := coalesce ts (last_loaded_timestamp w),
       last_loaded_date := coalesce dt (last_loaded_date w),
       last_invoice_number := coalesce nk (last_invoice_number w),
       records_processed := records_processed w + proc,
       records_rejected := records_rejected w + rej\<rparr>"

text \<open>
  \<open>update_watermark\<close> is an \<open>UPDATE\<close> and nothing else: it rewrites the rows that its
  \<open>WHERE\<close> clause selects and never inserts one.
\<close>

definition update_watermark ::
  "wrow list \<Rightarrow> string \<Rightarrow> string option \<Rightarrow> int option \<Rightarrow> int option \<Rightarrow> string option
     \<Rightarrow> nat \<Rightarrow> nat \<Rightarrow> wrow list" where
  "update_watermark store tname src new_timestamp new_date invoice_number proc rej =
     (if truthy src
      then map (\<lambda>w. if table_name w = tname \<and> source_system w = src
                     then set_watermark new_timestamp new_date invoice_number proc rej w
                     else w) store
      else map (\<lambda>w. if table_name w = tname
                     then set_watermark new_timestamp new_date invoice_number proc rej w
                     else w) store)"

text \<open>
  The \<open>WHERE\<close> clause that \<open>get_last_watermark\<close> and \<open>update_watermark\<close> share: table
  and source system when a source system is passed, the table alone otherwise.
\<close>

definition selects :: "string \<Rightarrow> string option \<Rightarrow> wrow \<Rightarrow> bool" where
  "selects tname src w =
     (if truthy src then table_name w = tname \<and> source_system w = src
      else table_name w = tname)"

section \<open>Incremental loader (\<open>IncrementalLoader\<close>)\<close>

text \<open>
  The database: the watermark table, the target tables by name and the quarantine table
  \<open>etl_rejected_records\<close>. A quarantined row keeps its columns and is tagged with its
  source table, source system and reason.
\<close>

record rejected_record =
  rejected_row :: srow
  source_table :: string
  rejected_source :: "string option"
  rejection_reason :: string

record db =
  etl_watermark :: "wrow list"
  tables :: "string \<Rightarrow> srow list"
  etl_rejected_records :: "rejected_record list"

text \<open>
  The steps of a load that can raise, and the errors a load returns in place of the
  exception: the failure of a step (\<open>fails\<close> tells which steps raise in a run), the
  \<open>KeyError\<close> of reading a column that a row lacks, and the error of the database on a
  statement that names a column the table lacks.
\<close>

datatype step = ReadWatermark | Validate | WriteTarget | Quarantine | UpdateWatermark

datatype error = Raised step | KeyError string | UndefinedColumn string

record fact_stats =
  inserted :: nat
  rejected_count :: nat
  total :: nat

record dim_stats =
  dim_inserted :: nat
  dim_updated :: nat
  dim_rejected :: nat

text \<open>The filter of fact mode: timestamp watermark, else date watermark, else all rows.\<close>

definition new_records_fact :: "watermark option \<Rightarrow> frame \<Rightarrow> frame" where
  "new_records_fact wm source_df =
     (case wm of
        None \<Rightarrow> source_df
      | Some w \<Rightarrow>
          (case timestamp w of
             Some last_timestamp \<Rightarrow>
               source_df\<lparr>rows := filter (\<lambda>r. last_timestamp < stamp r) (rows source_df)\<rparr>
           | None \<Rightarrow>
               (case date w of
                  Some last_date \<Rightarrow>
                    source_df\<lparr>rows :=
                      filter (\<lambda>r. last_date < date_of (stamp r)) (rows source_df)\<rparr>
                | None \<Rightarrow> source_df)))"

text \<open>The filter of dimension mode: timestamp watermark, else all rows.\<close>

definition new_records_dimension :: "watermark option \<Rightarrow> frame \<Rightarrow> frame" where
  "new_records_dimension wm source_df =
     (case wm of
        None \<Rightarrow> source_df
      | Some w \<Rightarrow>
          (case timestamp w of
             Some last_timestamp \<Rightarrow>
               source_df\<lparr>rows := filter (\<lambda>r. last_timestamp < stamp r) (rows source_df)\<rparr>
           | None \<Rightarrow> source_df))"

text \<open>\<open>sort_values(timestamp_column)\<close>, rows with equal timestamps kept in their order.\<close>

definition sort_values :: "frame \<Rightarrow> frame" where
  "sort_values df = df\<lparr>rows := sort_key stamp (rows df)\<rparr>"

text \<open>\<open>source_df[timestamp_column].max()\<close>; the loader reads it of a non-empty frame.\<close>

definition max_stamp :: "frame \<Rightarrow> int" where
  "max_stamp df = Max (set (map stamp (rows df)))"

text \<open>
  \<open>_log_rejected_records\<close>: appends the rejected rows to the quarantine table; an
  exception of the write is caught and logged, the database is then as before.
\<close>

definition log_rejected_records ::
  "(step \<Rightarrow> bool) \<Rightarrow> db \<Rightarrow> frame \<Rightarrow> string \<Rightarrow> string option \<Rightarrow> db" where
  "log_rejected_records fails d rejected_df tname src =
     (if length (rows rejected_df) = 0 then d
      else if fails Quarantine then d
      else d\<lparr>etl_rejected_records := etl_rejected_records d @
             map (\<lambda>r. \<lparr>rejected_row = r, source_table = tname, rejected_source = src,
                        rejection_reason = ''Validation failed''\<rparr>) (rows rejected_df)\<rparr>)"

definition load_fact_sales_incremental ::
  "(step \<Rightarrow> bool) \<Rightarrow> db \<Rightarrow> frame \<Rightarrow> string option \<Rightarrow> db \<times> (error + fact_stats)" where
  "load_fact_sales_incremental fails d source_df src =
     (if fails ReadWatermark then (d, Inl (Raised ReadWatermark))
      else
        let wm = get_last_watermark (etl_watermark d) ''fact_sales'' src;
            new_records = new_records_fact wm source_df
        in if length (rows new_records) = 0
           then (d, Inr \<lparr>inserted = 0, rejected_count = 0, total = 0\<rparr>)
           else
             let new_records = sort_values new_records
             in if fails Validate then (d, Inl (Raised Validate))
                else
                  let valid_records = fst (validate_records new_records ''fact_sales'');
                      rejected_records = snd (validate_records new_records ''fact_sales'');
                      records_rejected = length (rows rejected_records)
                  in if 0 < length (rows valid_records) \<and> fails WriteTarget
                     then (d, Inl (Raised WriteTarget))
                     else
                       let d1 = (if 0 < length (rows valid_records)
                                 then d\<lparr>tables := (tables d)(''fact_sales'' :=
                                          tables d ''fact_sales'' @ rows valid_records)\<rparr>
                                 else d);
                           records_inserted = length (rows valid_records);
                           d2 = (if 0 < records_rejected
                                 then log_rejected_records fails d1 rejected_records
                                        ''fact_sales'' src
                                 else d1);
                           new_timestamp = max_stamp source_df;
                           new_date = date_of new_timestamp
                       in if fails UpdateWatermark then (d2, Inl (Raised UpdateWatermark))
                          else
                            (d2\<lparr>etl_watermark :=
                                 update_watermark (etl_watermark d2) ''fact_sales'' src
                                   (Some new_timestamp) (Some new_date) None
                                   records_inserted records_rejected\<rparr>,
                             Inr \<lparr>inserted = records_inserted,
                                  rejected_count = records_rejected,
                                  total = length (rows new_records)\<rparr>))"

subsection \<open>Dimension mode\<close>

text \<open>
  SQL equality in a \<open>WHERE\<close> clause: never true on \<open>NULL\<close>. A missing key is bound as
  \<open>NULL\<close>, so that a row without a key value matches no stored row.
\<close>

definition sql_eq :: "val \<Rightarrow> val \<Rightarrow> bool" where
  "sql_eq a b = (a \<noteq> Null \<and> b \<noteq> Null \<and> a = b)"

definition key_matches :: "string \<Rightarrow> srow \<Rightarrow> srow \<Rightarrow> bool" where
  "key_matches unique_key row r = sql_eq (cell r unique_key) (cell row unique_key)"

fun set_cell :: "string \<Rightarrow> val \<Rightarrow> (string \<times> val) list \<Rightarrow> (string \<times> val) list" where
  "set_cell c v [] = [(c, v)]"
| "set_cell c v ((d, w) # cs) = (if d = c then (c, v) # cs else (d, w) # set_cell c v cs)"

text \<open>
  \<open>UPDATE t SET col = :col\<close> for every column of the incoming row but the key, on one
  stored row: the stored values are replaced in place.
\<close>

definition overwrite :: "string \<Rightarrow> srow \<Rightarrow> srow \<Rightarrow> srow" where
  "overwrite unique_key row r =
     r\<lparr>stamp := stamp row,
       cells := fold (\<lambda>(c, v) cs. if c = unique_key then cs else set_cell c v cs)
                  (cells row) (cells r)\<rparr>"

text \<open>
  The loop of \<open>_upsert_dimension\<close> over the batch, on the table and the two counters.
  \<open>table_columns\<close> are the columns of the target table (its declaration is not part of
  the sources); the table has the timestamp column, and the key column is another one.
  For each row: \<open>row[unique_key]\<close> raises \<open>KeyError\<close> when the row lacks the key column;
  \<open>SELECT COUNT(*) ... WHERE key = :key\<close> needs the key column in the table; then either
  the \<open>UPDATE\<close> of every row with that key, which names every column of the incoming row
  but the key, or the \<open>INSERT\<close>, which names every column of the incoming row.
\<close>

definition unknown_columns :: "string list \<Rightarrow> string list \<Rightarrow> string list" where
  "unknown_columns table_columns cs = filter (\<lambda>c. c \<notin> set table_columns) cs"

fun upsert_rows ::
  "string list \<Rightarrow> string \<Rightarrow> srow list \<Rightarrow> srow list \<times> nat \<times> nat
     \<Rightarrow> error + (srow list \<times> nat \<times> nat)" where
  "upsert_rows table_columns unique_key [] acc = Inr acc"
| "upsert_rows table_columns unique_key (row # batch) (tbl, inserted_count, updated_count) =
     (if unique_key \<notin> set (map fst (cells row)) then Inl (KeyError unique_key)
      else if unique_key \<notin> set table_columns then Inl (UndefinedColumn unique_key)
      else if 0 < length (filter (key_matches unique_key row) tbl)
      then (case unknown_columns table_columns
                   (filter (\<lambda>c. c \<noteq> unique_key) (map fst (cells row))) of
              c # cs \<Rightarrow> Inl (UndefinedColumn c)
            | [] \<Rightarrow>
                upsert_rows table_columns unique_key batch
                  (map (\<lambda>r. if key_matches unique_key row r then overwrite unique_key row r
                            else r) tbl,
                   inserted_count, updated_count + 1))
      else (case unknown_columns table_columns (map fst (cells row)) of
              c # cs \<Rightarrow> Inl (UndefinedColumn c)
            | [] \<Rightarrow>
                upsert_rows table_columns unique_key batch
                  (tbl @ [row], inserted_count + 1, updated_count)))"

text \<open>
  \<open>_upsert_dimension\<close>: the loop runs on one connection that commits at its end, so
  an exception leaves the table as it was; the exception is logged and raised again.
\<close>

definition upsert_dimension ::
  "(step \<Rightarrow> bool) \<Rightarrow> db \<Rightarrow> string list \<Rightarrow> frame \<Rightarrow> string \<Rightarrow> string
     \<Rightarrow> error + (db \<times> nat \<times> nat)" where
  "upsert_dimension fails d table_columns df tname unique_key =
     (if fails WriteTarget then Inl (Raised WriteTarget)
      else
        case upsert_rows table_columns unique_key (rows df) (tables d tname, 0, 0) of
          Inl e \<Rightarrow> Inl e
        | Inr res \<Rightarrow>
            Inr (d\<lparr>tables := (tables d)(tname := fst res)\<rparr>, fst (snd res), snd (snd res)))"

text \<open>
  \<open>load_dimension_incremental\<close>. A frame always carries its timestamp column, so the
  \<open>ValueError\<close> for a missing timestamp column does not arise.
\<close>

definition load_dimension_incremental ::
  "(step \<Rightarrow> bool) \<Rightarrow> db \<Rightarrow> string list \<Rightarrow> frame \<Rightarrow> string \<Rightarrow> string \<Rightarrow> string option
     \<Rightarrow> db \<times> (error + dim_stats)" where
  "load_dimension_incremental fails d table_columns source_df tname unique_key src =
     (if fails ReadWatermark then (d, Inl (Raised ReadWatermark))
      else
        let wm = get_last_watermark (etl_watermark d) tname src;
            new_records = new_records_dimension wm source_df
        in if length (rows new_records) = 0
           then (d, Inr \<lparr>dim_inserted = 0, dim_updated = 0, dim_rejected = 0\<rparr>)
           else
             let new_records = sort_values new_records
             in if fails Validate then (d, Inl (Raised Validate))
                else
                  let valid_records = fst (validate_records new_records tname);
                      rejected_records = snd (validate_records new_records tname)
                  in case upsert_dimension fails d table_columns valid_records tname
                            unique_key of
                       Inl e \<Rightarrow> (d, Inl e)
                     | Inr (d1, ins, upd) \<Rightarrow>
                         let records_rejected = length (rows rejected_records);
                             d2 = (if 0 < records_rejected
                                   then log_rejected_records fails d1 rejected_records tname src
                                   else d1);
                             new_timestamp = max_stamp source_df;
                             new_date = date_of new_timestamp
                         in if fails UpdateWatermark then (d2, Inl (Raised UpdateWatermark))
                            else
                              (d2\<lparr>etl_watermark :=
                                   update_watermark (etl_watermark d2) tname src
                                     (Some new_timestamp) (Some new_date) None
                                     (ins + upd) records_rejected\<rparr>,
                               Inr \<lparr>dim_inserted = ins, dim_updated = upd,
                                    dim_rejected = records_rejected\<rparr>))"

section \<open>Customer dimension with history (\<open>load_customer_multisource\<close>, \<open>load_customer_scd\<close>)\<close>

text \<open>
  A descriptive attribute as the loop holds it: \<open>None\<close> (a column that the frame lacks, or
  SQL \<open>NULL\<close>), the \<open>NaN\<close> that the left merge leaves in the columns of the second source
  for a customer that this source does not know, or a text.
\<close>

datatype attr = Absent | NaN | Text string

text \<open>
  Python's \<open>a != b\<close> on these values: \<open>NaN\<close> differs from every value, itself included;
  otherwise two values differ when they are not the same.
\<close>

definition py_ne :: "attr \<Rightarrow> attr \<Rightarrow> bool" where
  "py_ne a b = (a = NaN \<or> b = NaN \<or> a \<noteq> b)"

text \<open>
  A row of \<open>dim_customer\<close>: the surrogate key, the natural key \<open>customer_id\<close>, the three
  attributes that the loader compares (\<open>state\<close>, \<open>email\<close>, \<open>customer_segment\<close>), the other
  descriptive columns, the validity window in days and the provenance. A stored attribute
  reads back as it was written; whatever the database keeps for a \<open>NaN\<close>, the comparison
  with an incoming \<open>NaN\<close> comes out the same.
\<close>

record customer_row =
  customer_key :: nat
  customer_id :: int
  state :: attr
  email :: attr
  customer_segment :: attr
  other_columns :: "(string \<times> attr) list"
  effective_date :: int
  expiry_date :: int
  is_current :: bool
  row_source :: string

text \<open>An incoming customer, as the loop reads it from a row of the merged frame.\<close>

record customer_in =
  in_customer_id :: int
  in_state :: attr
  in_email :: attr
  in_segment :: attr
  in_other :: "(string \<times> attr) list"
  in_source :: string

text \<open>
  The table with the next value of its key sequence, and the three counters of the loop.
\<close>

record scd_run =
  dim_customer :: "customer_row list"
  next_customer_key :: nat
  rows_inserted :: nat
  rows_updated :: nat
  rows_skipped :: nat

text \<open>The date \<open>9999-12-31\<close>, in days since 1970-01-01.\<close>

definition sentinel_date :: int where
  "sentinel_date = 2932896"

text \<open>\<open>SELECT ... WHERE customer_id = :cid AND is_current = TRUE\<close>, \<open>fetchone()\<close>.\<close>

definition current_row :: "customer_row list \<Rightarrow> int \<Rightarrow> customer_row option" where
  "current_row tbl cid = find (\<lambda>r. customer_id r = cid \<and> is_current r) tbl"

text \<open>\<open>UPDATE dim_customer SET expiry_date = :exp, is_current = FALSE WHERE customer_key = :ck\<close>.\<close>

definition expire :: "int \<Rightarrow> nat \<Rightarrow> customer_row list \<Rightarrow> customer_row list" where
  "expire today ck tbl =
     map (\<lambda>r. if customer_key r = ck then r\<lparr>expiry_date := today, is_current := False\<rparr> else r)
       tbl"

text \<open>The row that both \<open>INSERT\<close> statements write.\<close>

definition new_version :: "int \<Rightarrow> nat \<Rightarrow> customer_in \<Rightarrow> customer_row" where
  "new_version today ck row =
     \<lparr>customer_key = ck, customer_id = in_customer_id row, state = in_state row,
      email = in_email row, customer_segment = in_segment row, other_columns = in_other row,
      effective_date = today, expiry_date = sentinel_date, is_current = True,
      row_source = in_source row\<rparr>"

definition insert_version :: "int \<Rightarrow> customer_in \<Rightarrow> scd_run \<Rightarrow> scd_run" where
  "insert_version today row s =
     s\<lparr>dim_customer := dim_customer s @ [new_version today (next_customer_key s) row],
       next_customer_key := Suc (next_customer_key s)\<rparr>"

text \<open>The body of the loop of \<open>load_customer_multisource_incremental\<close>.\<close>

definition scd_upsert :: "int \<Rightarrow> scd_run \<Rightarrow> customer_in \<Rightarrow> scd_run" where
  "scd_upsert today s row =
     (case current_row (dim_customer s) (in_customer_id row) of
        None \<Rightarrow>
          (insert_version today row s)\<lparr>rows_inserted := rows_inserted s + 1\<rparr>
      | Some result \<Rightarrow>
          if py_ne (state result) (in_state row) \<or> py_ne (email result) (in_email row)
             \<or> py_ne (customer_segment result) (in_segment row)
          then (insert_version today row
                  (s\<lparr>dim_customer := expire today (customer_key result) (dim_customer s)\<rparr>))
               \<lparr>rows_updated := rows_updated s + 1\<rparr>
          else s\<lparr>rows_skipped := rows_skipped s + 1\<rparr>)"

definition load_customers :: "int \<Rightarrow> scd_run \<Rightarrow> customer_in list \<Rightarrow> scd_run" where
  "load_customers today s batch = foldl (scd_upsert today) s batch"

text \<open>
  The loop of \<open>load_customer_scd\<close>: it reads the customer and the country only, compares
  the state alone and writes the name \<open>Unknown\<close>, no city and no other attribute.
\<close>

definition simple_in :: "int \<times> attr \<Rightarrow> customer_in" where
  "simple_in p =
     \<lparr>in_customer_id = fst p, in_state = snd p, in_email = Absent, in_segment = Absent,
      in_other = [(''customer_name'', Text ''Unknown''), (''city'', Absent)],
      in_source = []\<rparr>"

definition simple_upsert :: "int \<Rightarrow> scd_run \<Rightarrow> int \<times> attr \<Rightarrow> scd_run" where
  "simple_upsert today s p =
     (case current_row (dim_customer s) (fst p) of
        None \<Rightarrow> insert_version today (simple_in p) s
      | Some result \<Rightarrow>
          if py_ne (state result) (snd p)
          then insert_version today (simple_in p)
                 (s\<lparr>dim_customer := expire today (customer_key result) (dim_customer s)\<rparr>)
          else s)"

definition load_customers_simple :: "int \<Rightarrow> scd_run \<Rightarrow> (int \<times> attr) list \<Rightarrow> scd_run" where
  "load_customers_simple today s batch = foldl (simple_upsert today) s batch"

text \<open>The number of current rows of a customer, and the exclusivity invariant.\<close>

definition current_count :: "customer_row list \<Rightarrow> int \<Rightarrow> nat" where
  "current_count tbl cid = length (filter (\<lambda>r. customer_id r = cid \<and> is_current r) tbl)"

definition one_current :: "customer_row list \<Rightarrow> bool" where
  "one_current tbl = (\<forall>cid. current_count tbl cid \<le> 1)"

section \<open>Fact load script (\<open>load_fact_sales_incremental.py\<close>)\<close>

text \<open>
  A row of the source file after the script has cleaned and filtered it: the customer is
  known, the quantity positive, the invoice date parsed and later than the watermark date.
  \<open>InvoiceDate\<close> is in seconds.
\<close>

record sale =
  InvoiceNo :: string
  StockCode :: string
  CustomerID :: int
  Country :: string
  InvoiceDate :: int
  Quantity :: int
  UnitPrice :: real

record product_row =
  product_id :: string
  product_key :: nat

record store_row =
  region :: string
  store_key :: nat

record fact_row =
  fact_customer_key :: nat
  fact_product_key :: nat
  fact_store_key :: nat
  time_key :: int
  quantity_sold :: int
  sales_amount :: real
  discount_amount :: real

text \<open>
  The tables that the script reads or writes, and the quarantine table of the warehouse,
  which it does not touch.
\<close>

record warehouse =
  dim_product :: "product_row list"
  dim_customer_rows :: "customer_row list"
  dim_store :: "store_row list"
  fact_sales :: "fact_row list"
  quarantine :: "rejected_record list"
  watermarks :: "wrow list"

text \<open>\<open>dict(rows)\<close>: of two rows with the same key the later one stays.\<close>

definition dict :: "('k \<times> 'v) list \<Rightarrow> 'k \<Rightarrow> 'v option" where
  "dict pairs = map_of (rev pairs)"

definition product_map :: "warehouse \<Rightarrow> string \<Rightarrow> nat option" where
  "product_map w = dict (map (\<lambda>r. (product_id r, product_key r)) (dim_product w))"

text \<open>\<open>SELECT customer_id, customer_key FROM dim_customer WHERE is_current = TRUE\<close>.\<close>

definition customer_map :: "warehouse \<Rightarrow> int \<Rightarrow> nat option" where
  "customer_map w =
     dict (map (\<lambda>r. (customer_id r, customer_key r)) (filter is_current (dim_customer_rows w)))"

definition store_map :: "warehouse \<Rightarrow> string \<Rightarrow> nat option" where
  "store_map w = dict (map (\<lambda>r. (region r, store_key r)) (dim_store w))"

text \<open>
  The dictionary appended to \<open>fact_rows\<close>. \<open>ymd\<close> is \<open>strftime('%Y%m%d')\<close> read as a
  number. The lookups \<open>customer_map[cid]\<close> and the two others are reached only with the
  key present.
\<close>

definition fact_row_of ::
  "(int \<Rightarrow> int) \<Rightarrow> (string \<Rightarrow> nat option) \<Rightarrow> (int \<Rightarrow> nat option) \<Rightarrow> (string \<Rightarrow> nat option)
     \<Rightarrow> sale \<Rightarrow> fact_row" where
  "fact_row_of ymd pm cm sm row =
     \<lparr>fact_customer_key = the (cm (CustomerID row)),
      fact_product_key = the (pm (StockCode row)),
      fact_store_key = the (sm (Country row)),
      time_key = ymd (InvoiceDate row),
      quantity_sold = Quantity row,
      sales_amount = real_of_int (Quantity row) * UnitPrice row,
      discount_amount = 0\<rparr>"

text \<open>
  The loop over the rows: a row with a key that one of the maps lacks is passed over
  by \<open>continue\<close>, any other row is appended.
\<close>

fun fact_loop ::
  "(int \<Rightarrow> int) \<Rightarrow> (string \<Rightarrow> nat option) \<Rightarrow> (int \<Rightarrow> nat option) \<Rightarrow> (string \<Rightarrow> nat option)
     \<Rightarrow> sale list \<Rightarrow> fact_row list \<Rightarrow> fact_row list" where
  "fact_loop ymd pm cm sm [] fact_rows = fact_rows"
| "fact_loop ymd pm cm sm (row # df) fact_rows =
     (if pm (StockCode row) = None \<or> cm (CustomerID row) = None \<or> sm (Country row) = None
      then fact_loop ymd pm cm sm df fact_rows
      else fact_loop ymd pm cm sm df (fact_rows @ [fact_row_of ymd pm cm sm row]))"

text \<open>
  The steps of the script that reach the database, and what the script prints about the
  rows: the number of new rows and the number of prepared fact rows.
\<close>

datatype script_step = ReadKeys | WriteFacts | WriteWatermark

record script_report =
  new_rows :: nat
  prepared :: nat

text \<open>
  The script from the test on the cleaned frame \<open>df\<close> to its end. It has no handler: an
  exception of a step ends the run, with the writes of the earlier steps in place.
\<close>

definition load_fact_sales_script ::
  "(script_step \<Rightarrow> bool) \<Rightarrow> (int \<Rightarrow> int) \<Rightarrow> warehouse \<Rightarrow> sale list
     \<Rightarrow> warehouse \<times> (script_step + script_report option)" where
  "load_fact_sales_script fails ymd w df =
     (if length df = 0 then (w, Inr None)
      else if fails ReadKeys then (w, Inl ReadKeys)
      else
        let fact_rows = fact_loop ymd (product_map w) (customer_map w) (store_map w) df []
        in if fact_rows = []
           then (w, Inr (Some \<lparr>new_rows = length df, prepared = 0\<rparr>))
           else if fails WriteFacts then (w, Inl WriteFacts)
           else
             let w1 = w\<lparr>fact_sales := fact_sales w @ fact_rows\<rparr>;
                 max_date = date_of (Max (set (map InvoiceDate df)));
                 max_invoice = Max (set (map InvoiceNo df))
             in if fails WriteWatermark then (w1, Inl WriteWatermark)
                else
                  (w1\<lparr>watermarks :=
                        update_watermark (watermarks w1) ''fact_sales'' (Some ''RETAIL_OLTP'')
                          None (Some max_date) (Some max_invoice) (length fact_rows) 0\<rparr>,
                   Inr (Some \<lparr>new_rows = length df, prepared = length fact_rows\<rparr>)))"

text \<open>
  A source row has its dimension rows: a product with its stock code, a current customer
  row with its customer number and a store with its country.
\<close>

definition resolvable :: "warehouse \<Rightarrow> sale \<Rightarrow> bool" where
  "resolvable w r =
     (list_ex (\<lambda>p. product_id p = StockCode r) (dim_product w)
      \<and> list_ex (\<lambda>c. is_current c \<and> customer_id c = CustomerID r) (dim_customer_rows w)
      \<and> list_ex (\<lambda>s. region s = Country r) (dim_store w))"

text \<open>The keys of a fact row are those of such dimension rows of the source row.\<close>

definition resolved_from :: "warehouse \<Rightarrow> sale \<Rightarrow> fact_row \<Rightarrow> bool" where
  "resolved_from w r f =
     (list_ex (\<lambda>p. product_id p = StockCode r \<and> product_key p = fact_product_key f)
        (dim_product w)
      \<and> list_ex (\<lambda>c. is_current c \<and> customer_id c = CustomerID r
                      \<and> customer_key c = fact_customer_key f) (dim_customer_rows w)
      \<and> list_ex (\<lambda>s. region s = Country r \<and> store_key s = fact_store_key f) (dim_store w))"

section \<open>Anomaly detection (\<open>AdvancedDataQuality.detect_numerical_anomalies\<close>)\<close>









section \<open>Sample data\<close>

subsection \<open>A sample batch for the validator\<close>

text \<open>
  Three rows of a sales extract: a clean one, one that misses its customer key and has a
  negative quantity as well, and one with a negative quantity only.
\<close>

definition sample_frame :: frame where
  "sample_frame =
     \<lparr>columns = [(''customer_key'', True), (''quantity'', True), (''note'', False)],
      rows =
        [\<lparr>stamp = 10,
          cells = [(''customer_key'', Num 1), (''quantity'', Num 2), (''note'', Null)]\<rparr>,
         \<lparr>stamp = 20,
          cells = [(''customer_key'', Null), (''quantity'', Num (- 3)), (''note'', Str ''x'')]\<rparr>,
         \<lparr>stamp = 30,
          cells = [(''customer_key'', Num 4), (''quantity'', Num (- 1)), (''note'', Null)]\<rparr>]\<rparr>"

text \<open>
  A batch that meets each rule of the validator apart. Row 1 is valid: its quantity is
  zero, its discount is negative but names no amount, quantity or price, \<open>total_amount\<close>
  is negative but not of a number type, and the critical columns that the batch lacks
  (\<open>time_key\<close> and others) do not count. Row 2 has a null critical column only, row 3 a
  negative price in a column spelled with capitals only, row 4 both, row 5 a negative
  quantity.
\<close>

definition mixed_frame :: frame where
  "mixed_frame =
     \<lparr>columns = [(''customer_key'', True), (''Unit_PRICE'', True), (''quantity'', True),
                 (''discount'', True), (''total_amount'', False)],
      rows =
        [\<lparr>stamp = 1,
          cells = [(''customer_key'', Num 7), (''Unit_PRICE'', Num 2), (''quantity'', Num 0),
                   (''discount'', Num (- 5)), (''total_amount'', Num (- 1))]\<rparr>,
         \<lparr>stamp = 2,
          cells = [(''customer_key'', Null), (''Unit_PRICE'', Num 2), (''quantity'', Num 1),
                   (''discount'', Num 0), (''total_amount'', Str ''2'')]\<rparr>,
         \<lparr>stamp = 3,
          cells = [(''customer_key'', Num 7), (''Unit_PRICE'', Num (- 2)), (''quantity'', Num 1),
                   (''discount'', Num 0), (''total_amount'', Null)]\<rparr>,
         \<lparr>stamp = 4,
          cells = [(''customer_key'', Null), (''Unit_PRICE'', Num (- 2)), (''quantity'', Num 1),
                   (''discount'', Num 0), (''total_amount'', Null)]\<rparr>,
         \<lparr>stamp = 5,
          cells = [(''customer_key'', Num 7), (''Unit_PRICE'', Num 2), (''quantity'', Num (- 1)),
                   (''discount'', Num 0), (''total_amount'', Null)]\<rparr>]\<rparr>"

subsection \<open>Sample databases\<close>

text \<open>
  A run in which no step raises; a warehouse without any watermark row; and one whose
  watermark table holds the row of (\<open>fact_sales\<close>, \<open>RETAIL_OLTP\<close>), nothing loaded yet.
\<close>

definition no_faults :: "step \<Rightarrow> bool" where
  "no_faults s = False"

definition empty_db :: db where
  "empty_db = \<lparr>etl_watermark = [], tables = (\<lambda>t. []), etl_rejected_records = []\<rparr>"

definition seeded_db :: db where
  "seeded_db =
     \<lparr>etl_watermark =
        [\<lparr>table_name = ''fact_sales'', source_system = Some ''RETAIL_OLTP'',
          last_loaded_timestamp = None, last_loaded_date = None,
          last_invoice_number = None, records_processed = 0, records_rejected = 0\<rparr>],
      tables = (\<lambda>t. []), etl_rejected_records = []\<rparr>"

text \<open>A run in which the write to the target table raises.\<close>

definition write_fault :: "step \<Rightarrow> bool" where
  "write_fault s = (s = WriteTarget)"

text \<open>A watermark that holds a date (day 0) and no timestamp.\<close>

definition date_only_watermark :: watermark where
  "date_only_watermark =
     \<lparr>timestamp = None, date = Some 0, invoice = None, processed = 0, rejected = 0\<rparr>"

subsection \<open>Order on watermark values\<close>

text \<open>\<open>NULL\<close> stands below every value; values compare as they are.\<close>

definition opt_le :: "int option \<Rightarrow> int option \<Rightarrow> bool" where
  "opt_le a b =
     (case a of None \<Rightarrow> True | Some x \<Rightarrow> (case b of None \<Rightarrow> False | Some y \<Rightarrow> x \<le> y))"

text \<open>
  A watermark row whose stored date is not later than the day of its stored timestamp
  (or that lacks one of the two).
\<close>

definition date_consistent :: "wrow \<Rightarrow> bool" where
  "date_consistent w =
     (case last_loaded_timestamp w of
        None \<Rightarrow> True
      | Some t \<Rightarrow> (case last_loaded_date w of None \<Rightarrow> True | Some dd \<Rightarrow> dd \<le> date_of t))"

definition watermark_key :: "wrow \<Rightarrow> string \<times> string option" where
  "watermark_key w = (table_name w, source_system w)"

text \<open>
  A warehouse whose watermark row of (\<open>fact_sales\<close>, \<open>RETAIL_OLTP\<close>) holds a timestamp
  on day 0 and the date of day 5, as it stands after a load that passed a date only.
\<close>

definition skewed_db :: db where
  "skewed_db =
     \<lparr>etl_watermark =
        [\<lparr>table_name = ''fact_sales'', source_system = Some ''RETAIL_OLTP'',
          last_loaded_timestamp = Some 0, last_loaded_date = Some 5,
          last_invoice_number = None, records_processed = 7, records_rejected = 0\<rparr>],
      tables = (\<lambda>t. []), etl_rejected_records = []\<rparr>"

text \<open>
  A warehouse after earlier loads: the row of \<open>fact_sales\<close> holds a timestamp and the
  date of the day before day 0, an invoice number and the counts of 7 processed and 3
  rejected rows; a second row belongs to \<open>dim_product\<close>. \<open>after_load\<close> is that warehouse
  after a load of the sample batch that passes no source system.
\<close>

definition loaded_db :: db where
  "loaded_db =
     \<lparr>etl_watermark =
        [\<lparr>table_name = ''fact_sales'', source_system = Some ''RETAIL_OLTP'',
          last_loaded_timestamp = Some (- 100), last_loaded_date = Some (- 1),
          last_invoice_number = Some ''536365'', records_processed = 7, records_rejected = 3\<rparr>,
         \<lparr>table_name = ''dim_product'', source_system = Some ''RETAIL_OLTP'',
          last_loaded_timestamp = Some 500, last_loaded_date = Some 0,
          last_invoice_number = None, records_processed = 4, records_rejected = 0\<rparr>],
      tables = (\<lambda>t. []), etl_rejected_records = []\<rparr>"

definition after_load :: db where
  "after_load = fst (load_fact_sales_incremental no_faults loaded_db sample_frame None)"

text \<open>
  A warehouse with two watermark rows for \<open>fact_sales\<close>: nothing loaded yet from
  \<open>RETAIL_OLTP\<close>, and a load up to second 100 from \<open>LEGACY\<close>.
\<close>

definition two_source_db :: db where
  "two_source_db =
     \<lparr>etl_watermark =
        [\<lparr>table_name = ''fact_sales'', source_system = Some ''RETAIL_OLTP'',
          last_loaded_timestamp = None, last_loaded_date = None,
          last_invoice_number = None, records_processed = 0, records_rejected = 0\<rparr>,
         \<lparr>table_name = ''fact_sales'', source_system = Some ''LEGACY'',
          last_loaded_timestamp = Some 100, last_loaded_date = Some 0,
          last_invoice_number = None, records_processed = 9, records_rejected = 0\<rparr>],
      tables = (\<lambda>t. []), etl_rejected_records = []\<rparr>"

subsection \<open>A sample customer dimension\<close>

text \<open>
  Customer 101 with one current row, state \<open>CA\<close>; an incoming row that moves the customer
  to \<open>NY\<close>, and one that repeats \<open>CA\<close>.
\<close>

definition ca_row :: customer_row where
  "ca_row =
     \<lparr>customer_key = 1, customer_id = 101, state = Text ''CA'', email = Absent,
      customer_segment = Absent, other_columns = [], effective_date = 19000,
      expiry_date = sentinel_date, is_current = True, row_source = ''RETAIL_OLTP''\<rparr>"

definition sample_run :: scd_run where
  "sample_run =
     \<lparr>dim_customer = [ca_row], next_customer_key = 2, rows_inserted = 0, rows_updated = 0,
      rows_skipped = 0\<rparr>"

definition ny_in :: customer_in where
  "ny_in =
     \<lparr>in_customer_id = 101, in_state = Text ''NY'', in_email = Absent, in_segment = Absent,
      in_other = [], in_source = ''RETAIL_OLTP''\<rparr>"

definition ca_in :: customer_in where
  "ca_in =
     \<lparr>in_customer_id = 101, in_state = Text ''CA'', in_email = Absent, in_segment = Absent,
      in_other = [], in_source = ''RETAIL_OLTP''\<rparr>"

text \<open>
  Customer 202 is known to the first source only: the merge leaves \<open>NaN\<close> in email and
  segment. Its current row was written from such a row, and the same row comes in again.
\<close>

definition nan_in :: customer_in where
  "nan_in =
     \<lparr>in_customer_id = 202, in_state = Text ''CA'', in_email = NaN, in_segment = NaN,
      in_other = [], in_source = ''RETAIL_OLTP''\<rparr>"

definition nan_run :: scd_run where
  "nan_run =
     \<lparr>dim_customer = [new_version 19000 1 nan_in], next_customer_key = 2, rows_inserted = 0,
      rows_updated = 0, rows_skipped = 0\<rparr>"

subsection \<open>A sample dimension table for the upsert\<close>

text \<open>
  A table that holds customer 1 in state \<open>CA\<close>, and a batch that brings customer 1 in
  state \<open>NY\<close>.
\<close>

definition ca_table :: "srow list" where
  "ca_table = [\<lparr>stamp = 1, cells = [(''customer_id'', Num 1), (''state'', Str ''CA'')]\<rparr>]"

definition ny_batch :: "srow list" where
  "ny_batch = [\<lparr>stamp = 2, cells = [(''customer_id'', Num 1), (''state'', Str ''NY'')]\<rparr>]"

definition customer_columns :: "string list" where
  "customer_columns = [''customer_id'', ''state'', ''city'']"

text \<open>A stored row with a city, and an incoming row that lacks the key column.\<close>

definition ca_city_table :: "srow list" where
  "ca_city_table =
     [\<lparr>stamp = 1, cells = [(''customer_id'', Num 1), (''state'', Str ''CA''),
                            (''city'', Str ''Fresno'')]\<rparr>,
      \<lparr>stamp = 1, cells = [(''customer_id'', Num 2), (''state'', Str ''TX''),
                            (''city'', Null)]\<rparr>]"

text \<open>The table \<open>ca_city_table\<close> after the upsert of \<open>ny_batch\<close>.\<close>

definition ny_city_table :: "srow list" where
  "ny_city_table =
     [\<lparr>stamp = 2, cells = [(''customer_id'', Num 1), (''state'', Str ''NY''),
                            (''city'', Str ''Fresno'')]\<rparr>,
      \<lparr>stamp = 1, cells = [(''customer_id'', Num 2), (''state'', Str ''TX''),
                            (''city'', Null)]\<rparr>]"

definition keyless_batch :: "srow list" where
  "keyless_batch = [\<lparr>stamp = 2, cells = [(''state'', Str ''NY'')]\<rparr>]"

subsection \<open>A sample warehouse for the fact load script\<close>

text \<open>
  One product, one store, customer 17850 with a current row and customer 13047 with an
  expired row only. Of the three sales the first has all its dimension rows, the second
  is of customer 13047 and the third of a product that the warehouse lacks.
\<close>

definition sample_warehouse :: warehouse where
  "sample_warehouse =
     \<lparr>dim_product = [\<lparr>product_id = ''85123A'', product_key = 1\<rparr>],
      dim_customer_rows =
        [ca_row\<lparr>customer_key := 5, customer_id := 17850\<rparr>,
         ca_row\<lparr>customer_key := 6, customer_id := 13047, is_current := False\<rparr>],
      dim_store = [\<lparr>region = ''United Kingdom'', store_key = 2\<rparr>],
      fact_sales = [],
      quarantine = [],
      watermarks =
        [\<lparr>table_name = ''fact_sales'', source_system = Some ''RETAIL_OLTP'',
          last_loaded_timestamp = None, last_loaded_date = None,
          last_invoice_number = None, records_processed = 0, records_rejected = 0\<rparr>]\<rparr>"

definition sample_sales :: "sale list" where
  "sample_sales =
     [\<lparr>InvoiceNo = ''536365'', StockCode = ''85123A'', CustomerID = 17850,
       Country = ''United Kingdom'', InvoiceDate = 100, Quantity = 6, UnitPrice = 2\<rparr>,
      \<lparr>InvoiceNo = ''536366'', StockCode = ''85123A'', CustomerID = 13047,
       Country = ''United Kingdom'', InvoiceDate = 200, Quantity = 1, UnitPrice = 3\<rparr>,
      \<lparr>InvoiceNo = ''536367'', StockCode = ''POST'', CustomerID = 17850,
       Country = ''United Kingdom'', InvoiceDate = 300, Quantity = 2, UnitPrice = 18\<rparr>]"

text \<open>A run of the script in which no step raises, and a stand-in for the calendar.\<close>

definition no_script_faults :: "script_step \<Rightarrow> bool" where
  "no_script_faults s = False"

definition sample_ymd :: "int \<Rightarrow> int" where
  "sample_ymd t = 20101201"

subsection \<open>Sample columns for the anomaly check\<close>



section \<open>Properties of the validator\<close>

lemma and_not_map:
  "and_not (map P xs) (map Q xs) = map (\<lambda>x. P x \<and> \<not> Q x) xs"
  by (induction xs) (simp_all add: and_not_def)

lemma not_any_map: "\<not> any (map Q xs) \<Longrightarrow> map (\<lambda>x. P x \<and> \<not> Q x) xs = map P xs"
  by (induction xs) (simp_all add: any_def)

lemma critical_step_map:
  "critical_step df (map P (rows df)) col =
     map (\<lambda>r. P r \<and> \<not> (col \<in> set (column_names df) \<and> cell r col = Null)) (rows df)"
proof (cases "col \<in> set (column_names df)")
  case False
  then show ?thesis by (simp add: critical_step_def)
next
  case True
  have "and_not (map P (rows df)) (null_mask df col) =
          map (\<lambda>r. P r \<and> \<not> isnull (cell r col)) (rows df)"
    unfolding null_mask_def by (rule and_not_map)
  moreover have "\<not> any (null_mask df col) \<Longrightarrow>
          map (\<lambda>r. P r \<and> \<not> isnull (cell r col)) (rows df) = map P (rows df)"
    unfolding null_mask_def by (rule not_any_map)
  ultimately show ?thesis using True
    by (auto simp: critical_step_def isnull_def)
qed

lemma numeric_step_map:
  "numeric_step df (map P (rows df)) col =
     map (\<lambda>r. P r \<and> \<not> (amount_like col \<and> negative (cell r col))) (rows df)"
proof (cases "amount_like col")
  case False
  then show ?thesis by (simp add: numeric_step_def)
next
  case True
  have "and_not (map P (rows df)) (negative_mask df col) =
          map (\<lambda>r. P r \<and> \<not> negative (cell r col)) (rows df)"
    unfolding negative_mask_def by (rule and_not_map)
  moreover have "\<not> any (negative_mask df col) \<Longrightarrow>
          map (\<lambda>r. P r \<and> \<not> negative (cell r col)) (rows df) = map P (rows df)"
    unfolding negative_mask_def by (rule not_any_map)
  ultimately show ?thesis using True
    by (auto simp: numeric_step_def)
qed

lemma foldl_critical_step:
  "foldl (critical_step df) (map P (rows df)) cs =
     map (\<lambda>r. P r \<and> \<not> list_ex (\<lambda>c. c \<in> set (column_names df) \<and> cell r c = Null) cs)
       (rows df)"
proof (induction cs arbitrary: P)
  case Nil
  show ?case by simp
next
  case (Cons c cs)
  show ?case
    by (simp only: foldl_Cons critical_step_map Cons.IH) auto
qed

lemma foldl_numeric_step:
  "foldl (numeric_step df) (map P (rows df)) cs =
     map (\<lambda>r. P r \<and> \<not> list_ex (\<lambda>c. amount_like c \<and> negative (cell r c)) cs) (rows df)"
proof (induction cs arbitrary: P)
  case Nil
  show ?case by simp
next
  case (Cons c cs)
  show ?case
    by (simp only: foldl_Cons numeric_step_map Cons.IH) auto
qed

lemma validate_mask_eq:
  "validate_mask df t =
     map (\<lambda>r. \<not> (list_ex (\<lambda>c. c \<in> set (column_names df) \<and> cell r c = Null)
                     (get_critical_columns t)
                   \<or> list_ex (\<lambda>c. amount_like c \<and> negative (cell r c)) (numeric_columns df)))
       (rows df)"
proof -
  have "replicate (length (rows df)) True = map (\<lambda>r. True) (rows df)"
    by (simp add: map_replicate_const)
  then show ?thesis
    by (simp add: validate_mask_def foldl_critical_step foldl_numeric_step)
qed

lemma select_map:
  "map fst (filter snd (zip xs (map P xs))) = filter P xs"
  by (induction xs) simp_all

lemma rows_valid:
  "rows (fst (validate_records df t)) =
     filter (\<lambda>r. \<not> (list_ex (\<lambda>c. c \<in> set (column_names df) \<and> cell r c = Null)
                        (get_critical_columns t)
                      \<or> list_ex (\<lambda>c. amount_like c \<and> negative (cell r c)) (numeric_columns df)))
       (rows df)"
  by (simp add: validate_records_def Let_def select_rows_def validate_mask_eq select_map)

lemma rows_rejected:
  "rows (snd (validate_records df t)) =
     filter (\<lambda>r. list_ex (\<lambda>c. c \<in> set (column_names df) \<and> cell r c = Null)
                    (get_critical_columns t)
                  \<or> list_ex (\<lambda>c. amount_like c \<and> negative (cell r c)) (numeric_columns df))
       (rows df)"
proof -
  have n: "map Not (map (\<lambda>r. \<not> Q r) xs) = map Q xs" for Q :: "srow \<Rightarrow> bool" and xs
    by simp
  show ?thesis
    unfolding validate_records_def Let_def snd_conv select_rows_def validate_mask_eq n
    by (simp add: select_map)
qed

lemmas validator_eval =
  validate_records_def validate_mask_def select_rows_def numeric_columns_def
  column_names_def get_critical_columns_def critical_cols_def critical_step_def
  numeric_step_def null_mask_def negative_mask_def any_def and_not_def cell_def isnull_def
  negative_def amount_like_def lower_def lower_char_def

subsection \<open>The code and the rule of the specification\<close>

lemma is_prefix_iff: "is_prefix a b \<longleftrightarrow> prefix a b"
  by (induction a b rule: is_prefix.induct) simp_all

lemma contains_iff: "contains a b \<longleftrightarrow> sublist a b"
  by (induction b) (simp_all add: is_prefix_iff sublist_Cons_right)

lemma upper_codes: "map of_char ''ABCDEFGHIJKLMNOPQRSTUVWXYZ'' = [65..<91::nat]"
  by (simp add: upt_rec)

lemma eq_char_of_iff: "c = char_of n \<longleftrightarrow> take_bit 8 n = (of_char c :: nat)"
  using char_of_eq_iff [of n c] by auto

lemma upper_lower:
  "c \<in> set ''ABCDEFGHIJKLMNOPQRSTUVWXYZ'' \<Longrightarrow> lower_char c = spec_lower_char c"
  by (auto simp: lower_char_def spec_lower_char_def eq_char_of_iff)

lemma lower_char_eq: "lower_char c = spec_lower_char c"
proof (cases "c \<in> set ''ABCDEFGHIJKLMNOPQRSTUVWXYZ''")
  case True
  then show ?thesis
    by (rule upper_lower)
next
  case False
  then have none:
    "map_of (zip ''ABCDEFGHIJKLMNOPQRSTUVWXYZ'' ''abcdefghijklmnopqrstuvwxyz'') c = None"
    by simp
  have "\<not> (65 \<le> (of_char c :: nat) \<and> (of_char c :: nat) \<le> 90)"
  proof
    assume "65 \<le> (of_char c :: nat) \<and> (of_char c :: nat) \<le> 90"
    then have "65 \<le> (of_char c :: nat) \<and> (of_char c :: nat) < 91"
      by arith
    then have "(of_char c :: nat) \<in> set [65..<91]"
      by (simp only: set_upt atLeastLessThan_iff)
    then have "(of_char c :: nat) \<in> set (map of_char ''ABCDEFGHIJKLMNOPQRSTUVWXYZ'')"
      by (simp only: upper_codes)
    then obtain u where u: "u \<in> set ''ABCDEFGHIJKLMNOPQRSTUVWXYZ''"
      and e: "(of_char c :: nat) = of_char u"
      unfolding set_map by blast
    from e have "c = u"
      using inj_of_char [where ?'a = nat] by (simp add: inj_def)
    with u False show False by blast
  qed
  then show ?thesis
    unfolding lower_char_def spec_lower_char_def none by auto
qed

lemma amount_like_eq: "amount_like col = spec_amount_like col"
proof -
  have "lower col = map spec_lower_char col"
    by (simp add: lower_def lower_char_eq)
  then show ?thesis
    by (simp add: amount_like_def spec_amount_like_def spec_keywords_def contains_iff)
qed

lemma critical_eq: "get_critical_columns t = spec_critical t"
  by (simp add: get_critical_columns_def critical_cols_def spec_critical_def)

lemma negative_eq: "negative v = spec_negative v"
  by (cases v) (auto simp: negative_def spec_negative_def)

lemma spec_rejected_eq:
  "spec_rejected df t r =
     (list_ex (\<lambda>c. c \<in> set (column_names df) \<and> cell r c = Null) (get_critical_columns t)
      \<or> list_ex (\<lambda>c. amount_like c \<and> negative (cell r c)) (numeric_columns df))"
  by (simp add: spec_rejected_def critical_eq amount_like_eq negative_eq column_names_def
      numeric_columns_def)

text \<open>
  Claim C5. \<open>validate_records\<close> returns two frames with the columns of the input
  whose rows partition the input rows: the valid side is exactly the input rows, in order,
  that the rejection rule of the specification does not hit, the rejected side exactly
  those it hits, so a row that breaks several rules stands once on the rejected side and
  the two sides together hold every input row once. The rejection rule is: a declared
  critical column that is present in the data is null, or a numeric column whose name
  contains \<open>amount\<close>, \<open>quantity\<close> or \<open>price\<close>, capitals counting as small letters, is below
  zero. The critical columns of a table are those of the static mapping, and a table
  outside the mapping has none.
\<close>

theorem validate_records_partition:
  "rows (fst (validate_records df t)) = filter (\<lambda>r. \<not> spec_rejected df t r) (rows df)
   \<and> rows (snd (validate_records df t)) = filter (spec_rejected df t) (rows df)
   \<and> mset (rows (fst (validate_records df t))) + mset (rows (snd (validate_records df t)))
       = mset (rows df)
   \<and> length (rows (fst (validate_records df t))) + length (rows (snd (validate_records df t)))
       = length (rows df)
   \<and> columns (fst (validate_records df t)) = columns df
   \<and> columns (snd (validate_records df t)) = columns df
   \<and> get_critical_columns t = spec_critical t
   \<and> (t \<notin> {''fact_sales'', ''dim_product'', ''dim_customer'', ''dim_store''} \<longrightarrow>
        get_critical_columns t = [])"
proof -
  let ?v = "rows (fst (validate_records df t))" and ?r = "rows (snd (validate_records df t))"
  have e: "spec_rejected df t =
      (\<lambda>r. list_ex (\<lambda>c. c \<in> set (column_names df) \<and> cell r c = Null) (get_critical_columns t)
            \<or> list_ex (\<lambda>c. amount_like c \<and> negative (cell r c)) (numeric_columns df))"
    by (rule ext) (rule spec_rejected_eq)
  have v: "?v = filter (\<lambda>r. \<not> spec_rejected df t r) (rows df)"
    unfolding e by (rule rows_valid)
  have r: "?r = filter (spec_rejected df t) (rows df)"
    unfolding e by (rule rows_rejected)
  have m: "mset ?v + mset ?r = mset (rows df)"
    unfolding v r by (induction "rows df") simp_all
  have l: "length ?v + length ?r = length (rows df)"
    using arg_cong [OF m, of size] by simp
  have c: "columns (fst (validate_records df t)) = columns df"
    "columns (snd (validate_records df t)) = columns df"
    by (simp_all add: validate_records_def Let_def select_rows_def)
  have k: "get_critical_columns t = spec_critical t"
    by (rule critical_eq)
  have u: "t \<notin> {''fact_sales'', ''dim_product'', ''dim_customer'', ''dim_store''} \<longrightarrow>
        get_critical_columns t = []"
    by (simp add: critical_eq spec_critical_def)
  from v r m l c k u show ?thesis by blast
qed

lemma mixed_fact:
  "map stamp (rows (fst (validate_records mixed_frame ''fact_sales''))) = [1]"
  "map stamp (rows (snd (validate_records mixed_frame ''fact_sales''))) = [2, 3, 4, 5]"
  by (simp_all add: validator_eval mixed_frame_def)

lemma mixed_staging:
  "map stamp (rows (fst (validate_records mixed_frame ''staging_orders''))) = [1, 2]"
  "map stamp (rows (snd (validate_records mixed_frame ''staging_orders''))) = [3, 4, 5]"
  by (simp_all add: validator_eval mixed_frame_def)

theorem validate_records_partition_witness:
  "''staging_orders'' \<notin> {''fact_sales'', ''dim_product'', ''dim_customer'', ''dim_store''}
   \<and> get_critical_columns ''staging_orders'' = []
   \<and> get_critical_columns ''dim_store'' = [''store_key'', ''store_name'']
   \<and> map stamp (rows (fst (validate_records mixed_frame ''fact_sales''))) = [1]
   \<and> map stamp (rows (snd (validate_records mixed_frame ''fact_sales''))) = [2, 3, 4, 5]
   \<and> map stamp (filter (\<lambda>r. \<not> spec_rejected mixed_frame ''fact_sales'' r) (rows mixed_frame))
       = [1]
   \<and> map stamp (filter (spec_rejected mixed_frame ''fact_sales'') (rows mixed_frame))
       = [2, 3, 4, 5]
   \<and> map stamp (rows (fst (validate_records mixed_frame ''staging_orders''))) = [1, 2]
   \<and> map stamp (filter (spec_rejected mixed_frame ''staging_orders'') (rows mixed_frame))
       = [3, 4, 5]"
proof -
  have h: "''staging_orders'' \<notin> {''fact_sales'', ''dim_product'', ''dim_customer'', ''dim_store''}"
    by simp
  note fact = validate_records_partition [of mixed_frame "''fact_sales''"]
  note staging = validate_records_partition [of mixed_frame "''staging_orders''"]
  note store = validate_records_partition [of mixed_frame "''dim_store''"]
  from staging h have none: "get_critical_columns ''staging_orders'' = []"
    by blast
  from store have "get_critical_columns ''dim_store'' = spec_critical ''dim_store''"
    by blast
  then have some: "get_critical_columns ''dim_store'' = [''store_key'', ''store_name'']"
    by (simp add: spec_critical_def)
  from fact have fv: "rows (fst (validate_records mixed_frame ''fact_sales''))
      = filter (\<lambda>r. \<not> spec_rejected mixed_frame ''fact_sales'' r) (rows mixed_frame)"
    and fr: "rows (snd (validate_records mixed_frame ''fact_sales''))
      = filter (spec_rejected mixed_frame ''fact_sales'') (rows mixed_frame)"
    by blast+
  from staging have sr: "rows (snd (validate_records mixed_frame ''staging_orders''))
      = filter (spec_rejected mixed_frame ''staging_orders'') (rows mixed_frame)"
    by blast
  show ?thesis
    using h none some mixed_fact mixed_staging
      mixed_fact [unfolded fv fr] mixed_staging(2) [unfolded sr]
    by blast
qed

section \<open>Properties of the fact loader\<close>

lemma sample_valid:
  "validate_records sample_frame ''fact_sales'' =
     (sample_frame\<lparr>rows := take 1 (rows sample_frame)\<rparr>,
      sample_frame\<lparr>rows := drop 1 (rows sample_frame)\<rparr>)"
  by (simp add: validator_eval sample_frame_def)

lemma sample_sorted: "sort_values sample_frame = sample_frame"
  by (simp add: sort_values_def sample_frame_def)

text \<open>
  With an empty watermark table a load of the sample batch appends the valid row,
  quarantines the two others and leaves the watermark table empty: the \<open>UPDATE\<close> of
  \<open>update_watermark\<close> finds no row.
\<close>

lemma first_load:
  "etl_watermark d = [] \<Longrightarrow>
   load_fact_sales_incremental no_faults d sample_frame src =
     (d\<lparr>tables := (tables d)(''fact_sales'' :=
            tables d ''fact_sales'' @ take 1 (rows sample_frame)),
        etl_rejected_records := etl_rejected_records d @
          map (\<lambda>r. \<lparr>rejected_row = r, source_table = ''fact_sales'', rejected_source = src,
                     rejection_reason = ''Validation failed''\<rparr>) (drop 1 (rows sample_frame)),
        etl_watermark := []\<rparr>,
      Inr \<lparr>inserted = 1, rejected_count = 2, total = 3\<rparr>)"
  apply (simp add: load_fact_sales_incremental_def get_last_watermark_def
      new_records_fact_def no_faults_def Let_def sample_sorted sample_valid
      log_rejected_records_def update_watermark_def)
  apply (simp add: sample_frame_def)
  done

text \<open>
  Claim C1 (the code departs from it). The claim: two loads of the same source set, no
  watermark row present at first, and the second load processes no row, the first having
  left a watermark at the greatest source timestamp. The code: \<open>update_watermark\<close> only
  updates existing rows, so the first load leaves the watermark table empty and the second
  load takes every row again. On the sample batch both loads report one inserted row, two
  rejected ones and three in total.
\<close>

theorem first_run_load_repeats:
  "snd (load_fact_sales_incremental no_faults empty_db sample_frame (Some ''RETAIL_OLTP''))
     = Inr \<lparr>inserted = 1, rejected_count = 2, total = 3\<rparr>
   \<and> etl_watermark
       (fst (load_fact_sales_incremental no_faults empty_db sample_frame (Some ''RETAIL_OLTP'')))
     = []
   \<and> snd (load_fact_sales_incremental no_faults
            (fst (load_fact_sales_incremental no_faults empty_db sample_frame
                    (Some ''RETAIL_OLTP'')))
            sample_frame (Some ''RETAIL_OLTP''))
     = Inr \<lparr>inserted = 1, rejected_count = 2, total = 3\<rparr>"
proof -
  have e: "etl_watermark empty_db = []"
    by (simp add: empty_db_def)
  note one = first_load [OF e, of "Some ''RETAIL_OLTP''"]
  have two: "snd (load_fact_sales_incremental no_faults
      (fst (load_fact_sales_incremental no_faults empty_db sample_frame (Some ''RETAIL_OLTP'')))
      sample_frame (Some ''RETAIL_OLTP'')) = Inr \<lparr>inserted = 1, rejected_count = 2, total = 3\<rparr>"
    unfolding one by (subst first_load) simp_all
  show ?thesis using two by (simp add: one)
qed

text \<open>
  Claim C3 (the code departs from it in dimension mode). With a watermark that holds a
  date and no timestamp, fact mode keeps the rows whose date is later than the watermark
  date; dimension mode has no date branch and keeps every row. The sample rows all fall
  on day 0, the date of the watermark: fact mode keeps none of them, dimension mode all
  three.
\<close>

theorem dimension_filter_ignores_date_watermark:
  "rows (new_records_dimension (Some date_only_watermark) sample_frame) = rows sample_frame
   \<and> rows (new_records_fact (Some date_only_watermark) sample_frame) = []"
  by (simp add: new_records_dimension_def new_records_fact_def date_only_watermark_def
      sample_frame_def date_of_def)

subsection \<open>Failure of a load\<close>

lemma log_rejected_watermark:
  "etl_watermark (log_rejected_records fails d r t s) = etl_watermark d"
  by (simp add: log_rejected_records_def)

lemma failed_load_keeps_watermark:
  assumes "load_fact_sales_incremental fails d df src = (d', Inl e)"
  shows "etl_watermark d' = etl_watermark d"
  using assms
  by (auto simp add: load_fact_sales_incremental_def Let_def log_rejected_watermark
      split: if_splits)

lemma valid_nonempty:
  "rows (fst (validate_records (sort_values nr) t)) \<noteq> [] \<Longrightarrow> rows nr \<noteq> []"
  by (auto simp: rows_valid sort_values_def)

lemma read_failure_raised:
  "fails ReadWatermark \<Longrightarrow>
   load_fact_sales_incremental fails d df src = (d, Inl (Raised ReadWatermark))"
  by (simp add: load_fact_sales_incremental_def)

lemma validate_failure_raised:
  "\<not> fails ReadWatermark \<Longrightarrow> fails Validate \<Longrightarrow>
   rows (new_records_fact (get_last_watermark (etl_watermark d) ''fact_sales'' src) df) \<noteq> [] \<Longrightarrow>
   load_fact_sales_incremental fails d df src = (d, Inl (Raised Validate))"
  by (simp add: load_fact_sales_incremental_def Let_def)

lemma write_failure_raised:
  "\<not> fails ReadWatermark \<Longrightarrow> \<not> fails Validate \<Longrightarrow> fails WriteTarget \<Longrightarrow>
   rows (fst (validate_records (sort_values
      (new_records_fact (get_last_watermark (etl_watermark d) ''fact_sales'' src) df))
      ''fact_sales'')) \<noteq> [] \<Longrightarrow>
   load_fact_sales_incremental fails d df src = (d, Inl (Raised WriteTarget))"
  using valid_nonempty [of
      "new_records_fact (get_last_watermark (etl_watermark d) ''fact_sales'' src) df"
      "''fact_sales''"]
  by (simp add: load_fact_sales_incremental_def Let_def)

lemma update_failure_raised:
  "\<not> fails ReadWatermark \<Longrightarrow> \<not> fails Validate \<Longrightarrow> fails UpdateWatermark \<Longrightarrow>
   rows (new_records_fact (get_last_watermark (etl_watermark d) ''fact_sales'' src) df) \<noteq> [] \<Longrightarrow>
   \<not> (rows (fst (validate_records (sort_values
      (new_records_fact (get_last_watermark (etl_watermark d) ''fact_sales'' src) df))
      ''fact_sales'')) \<noteq> [] \<and> fails WriteTarget) \<Longrightarrow>
   snd (load_fact_sales_incremental fails d df src) = Inl (Raised UpdateWatermark)
   \<and> etl_watermark (fst (load_fact_sales_incremental fails d df src)) = etl_watermark d"
  by (simp add: load_fact_sales_incremental_def Let_def log_rejected_watermark)

text \<open>
  Claim C8. A fact-mode load that ends in an exception returns it to the caller and leaves
  the watermark table as it was. The exception is the one of the step that failed: reading
  the watermark, validating (reached when the batch has new rows), writing the valid rows
  (reached when there are any; the whole database is then as before the call) or updating
  the watermark (reached when the earlier steps went through; the watermark table is then
  as before the call).
\<close>

theorem fact_load_failure_atomic:
  "(load_fact_sales_incremental fails d df src = (d', Inl e) \<longrightarrow> etl_watermark d' = etl_watermark d)
   \<and> (fails ReadWatermark \<longrightarrow>
        load_fact_sales_incremental fails d df src = (d, Inl (Raised ReadWatermark)))
   \<and> (\<not> fails ReadWatermark \<and> fails Validate
        \<and> rows (new_records_fact (get_last_watermark (etl_watermark d) ''fact_sales'' src) df) \<noteq> []
      \<longrightarrow> load_fact_sales_incremental fails d df src = (d, Inl (Raised Validate)))
   \<and> (\<not> fails ReadWatermark \<and> \<not> fails Validate \<and> fails WriteTarget
        \<and> rows (fst (validate_records (sort_values
             (new_records_fact (get_last_watermark (etl_watermark d) ''fact_sales'' src) df))
             ''fact_sales'')) \<noteq> []
      \<longrightarrow> load_fact_sales_incremental fails d df src = (d, Inl (Raised WriteTarget)))
   \<and> (\<not> fails ReadWatermark \<and> \<not> fails Validate \<and> fails UpdateWatermark
        \<and> rows (new_records_fact (get_last_watermark (etl_watermark d) ''fact_sales'' src) df) \<noteq> []
        \<and> \<not> (rows (fst (validate_records (sort_values
             (new_records_fact (get_last_watermark (etl_watermark d) ''fact_sales'' src) df))
             ''fact_sales'')) \<noteq> [] \<and> fails WriteTarget)
      \<longrightarrow> snd (load_fact_sales_incremental fails d df src) = Inl (Raised UpdateWatermark)
          \<and> etl_watermark (fst (load_fact_sales_incremental fails d df src)) = etl_watermark d)"
  using failed_load_keeps_watermark [of fails d df src d' e]
    read_failure_raised [of fails d df src]
    validate_failure_raised [of fails d src df]
    write_failure_raised [of fails d src df]
    update_failure_raised [of fails d src df]
  by blast

lemma seeded_new_records:
  "new_records_fact (get_last_watermark (etl_watermark seeded_db) ''fact_sales''
      (Some ''RETAIL_OLTP'')) sample_frame = sample_frame"
  by (simp add: get_last_watermark_def seeded_db_def truthy_def to_watermark_def
      new_records_fact_def)

theorem fact_load_failure_atomic_witness:
  "load_fact_sales_incremental write_fault seeded_db sample_frame (Some ''RETAIL_OLTP'')
     = (seeded_db, Inl (Raised WriteTarget))
   \<and> etl_watermark (fst (load_fact_sales_incremental write_fault seeded_db sample_frame
        (Some ''RETAIL_OLTP''))) = etl_watermark seeded_db"
proof -
  have f: "\<not> write_fault ReadWatermark" "\<not> write_fault Validate" "write_fault WriteTarget"
    by (simp_all add: write_fault_def)
  have v: "rows (fst (validate_records (sort_values
             (new_records_fact (get_last_watermark (etl_watermark seeded_db) ''fact_sales''
                (Some ''RETAIL_OLTP'')) sample_frame)) ''fact_sales'')) \<noteq> []"
    unfolding seeded_new_records sample_sorted sample_valid by (simp add: sample_frame_def)
  have r: "load_fact_sales_incremental write_fault seeded_db sample_frame (Some ''RETAIL_OLTP'')
     = (seeded_db, Inl (Raised WriteTarget))"
    using f v fact_load_failure_atomic [of write_fault seeded_db sample_frame
        "Some ''RETAIL_OLTP''" seeded_db "Raised WriteTarget"]
    by blast
  show ?thesis using r by simp
qed

subsection \<open>Progress of the watermark\<close>

lemma stamp_le_max: "r \<in> set (rows df) \<Longrightarrow> stamp r \<le> max_stamp df"
  by (simp add: max_stamp_def)

lemma date_of_mono: "a \<le> b \<Longrightarrow> date_of a \<le> date_of b"
  by (simp add: date_of_def zdiv_mono1)

lemma new_rows_after_timestamp:
  assumes "rows (new_records_fact (Some wm) df) \<noteq> []" "timestamp wm = Some t"
  shows "t < max_stamp df"
proof -
  from assms obtain r where "r \<in> set (rows df)" "t < stamp r"
    by (auto simp: new_records_fact_def filter_empty_conv)
  then show ?thesis using stamp_le_max [of r df] by simp
qed

lemma new_rows_after_date:
  assumes "rows (new_records_fact (Some wm) df) \<noteq> []" "timestamp wm = None" "date wm = Some dd"
  shows "dd < date_of (max_stamp df)"
proof -
  from assms obtain r where "r \<in> set (rows df)" "dd < date_of (stamp r)"
    by (auto simp: new_records_fact_def filter_empty_conv)
  then show ?thesis using date_of_mono [OF stamp_le_max [of r df]] by simp
qed

lemma filter_single:
  assumes "length (filter P xs) \<le> 1" "i < length xs" "P (xs ! i)"
  shows "filter P xs = [xs ! i]"
proof -
  have m: "xs ! i \<in> set (filter P xs)"
    using assms(2,3) by simp
  show ?thesis
  proof (cases "filter P xs")
    case Nil
    with m show ?thesis by simp
  next
    case (Cons y ys)
    with assms(1) have "ys = []" by simp
    with m Cons show ?thesis by simp
  qed
qed

lemma find_filter: "find P xs = (case filter P xs of [] \<Rightarrow> None | x # ys \<Rightarrow> Some x)"
  by (induction xs) simp_all

lemma get_unique:
  assumes "length (filter (selects tname src) store) \<le> 1" "i < length store"
    "selects tname src (store ! i)"
  shows "get_last_watermark store tname src = Some (to_watermark (store ! i))"
proof (cases "truthy src")
  case True
  then have e: "(\<lambda>w. table_name w = tname \<and> source_system w = src) = selects tname src"
    by (simp add: selects_def fun_eq_iff)
  show ?thesis
    using True filter_single [OF assms]
    by (simp add: get_last_watermark_def e find_filter)
next
  case False
  then have e: "(\<lambda>w. table_name w = tname) = selects tname src"
    by (simp add: selects_def fun_eq_iff)
  show ?thesis
    using False filter_single [OF assms]
    by (simp add: get_last_watermark_def e)
qed

lemma update_nth:
  assumes "i < length store"
  shows "update_watermark store tname src ts dt nk p r ! i =
     (if selects tname src (store ! i)
      then set_watermark ts dt nk p r (store ! i) else store ! i)"
  using assms by (simp add: update_watermark_def selects_def)

lemma update_length: "length (update_watermark store tname src ts dt nk p r) = length store"
  by (simp add: update_watermark_def)

lemma set_watermark_fields:
  "table_name (set_watermark ts dt nk p r w) = table_name w"
  "source_system (set_watermark ts dt nk p r w) = source_system w"
  "last_loaded_timestamp (set_watermark ts dt nk p r w) = coalesce ts (last_loaded_timestamp w)"
  "last_loaded_date (set_watermark ts dt nk p r w) = coalesce dt (last_loaded_date w)"
  "last_invoice_number (set_watermark ts dt nk p r w) = coalesce nk (last_invoice_number w)"
  "records_processed (set_watermark ts dt nk p r w) = records_processed w + p"
  "records_rejected (set_watermark ts dt nk p r w) = records_rejected w + r"
  by (simp_all add: set_watermark_def)

lemma update_keys:
  "map watermark_key (update_watermark store tname src ts dt nk p r) = map watermark_key store"
  by (simp add: update_watermark_def watermark_key_def set_watermark_fields)

lemma load_success_shape:
  assumes "load_fact_sales_incremental fails d df src = (d', Inr st)"
  shows "(rows (new_records_fact (get_last_watermark (etl_watermark d) ''fact_sales'' src) df) = []
          \<and> d' = d \<and> st = \<lparr>inserted = 0, rejected_count = 0, total = 0\<rparr>)
       \<or> (rows (new_records_fact (get_last_watermark (etl_watermark d) ''fact_sales'' src) df) \<noteq> []
          \<and> etl_watermark d' = update_watermark (etl_watermark d) ''fact_sales'' src
               (Some (max_stamp df)) (Some (date_of (max_stamp df))) None
               (inserted st) (rejected_count st))"
  using assms
  by (auto simp add: load_fact_sales_incremental_def Let_def log_rejected_watermark
      split: if_splits)

lemma opt_le_refl: "opt_le a a"
  by (simp add: opt_le_def split: option.splits)

text \<open>
  Claim C6, as amended. A successful fact-mode load keeps the number and the keys of the
  watermark rows and leaves every natural key as it was; on each row the two counters do
  not decrease; the rows that the \<open>WHERE\<close> clause of the load selects (table and source
  system when a source system is passed, every row of the table otherwise) grow by the
  inserted and the rejected count of the call, and the other rows stay as they are. When
  the \<open>WHERE\<close> clause selects at most one row, the timestamp of every row does not decrease
  (a missing one counts as the least), and the date of a row does not decrease when the
  stored date was not later than the day of the stored timestamp, a relation that holds
  again after the load.
\<close>

theorem watermark_monotone:
  assumes ok: "load_fact_sales_incremental fails d df src = (d', Inr st)"
    and i: "i < length (etl_watermark d)"
  shows "length (etl_watermark d') = length (etl_watermark d)
    \<and> map watermark_key (etl_watermark d') = map watermark_key (etl_watermark d)
    \<and> watermark_key (etl_watermark d' ! i) = watermark_key (etl_watermark d ! i)
    \<and> last_invoice_number (etl_watermark d' ! i) = last_invoice_number (etl_watermark d ! i)
    \<and> records_processed (etl_watermark d ! i) \<le> records_processed (etl_watermark d' ! i)
    \<and> records_rejected (etl_watermark d ! i) \<le> records_rejected (etl_watermark d' ! i)
    \<and> (selects ''fact_sales'' src (etl_watermark d ! i) \<longrightarrow>
         records_processed (etl_watermark d' ! i)
           = records_processed (etl_watermark d ! i) + inserted st
         \<and> records_rejected (etl_watermark d' ! i)
           = records_rejected (etl_watermark d ! i) + rejected_count st)
    \<and> (\<not> selects ''fact_sales'' src (etl_watermark d ! i) \<longrightarrow>
         etl_watermark d' ! i = etl_watermark d ! i)
    \<and> (length (filter (selects ''fact_sales'' src) (etl_watermark d)) \<le> 1 \<longrightarrow>
         opt_le (last_loaded_timestamp (etl_watermark d ! i))
           (last_loaded_timestamp (etl_watermark d' ! i))
         \<and> (date_consistent (etl_watermark d ! i) \<longrightarrow>
              opt_le (last_loaded_date (etl_watermark d ! i))
                (last_loaded_date (etl_watermark d' ! i))
              \<and> date_consistent (etl_watermark d' ! i)))"
proof -
  let ?w = "etl_watermark d ! i"
  let ?nr = "new_records_fact (get_last_watermark (etl_watermark d) ''fact_sales'' src) df"
  let ?m = "max_stamp df"
  from load_success_shape [OF ok] consider
    (none) "d' = d" "st = \<lparr>inserted = 0, rejected_count = 0, total = 0\<rparr>"
  | (some) "rows ?nr \<noteq> []"
      "etl_watermark d' = update_watermark (etl_watermark d) ''fact_sales'' src
         (Some ?m) (Some (date_of ?m)) None (inserted st) (rejected_count st)"
    by blast
  then show ?thesis
  proof cases
    case none
    then show ?thesis by (simp add: opt_le_refl)
  next
    case some
    note nth = update_nth [OF i, of "''fact_sales''" src "Some ?m" "Some (date_of ?m)" None
        "inserted st" "rejected_count st"]
    show ?thesis
    proof (cases "selects ''fact_sales'' src ?w")
      case False
      then show ?thesis
        by (simp add: some(2) update_length update_keys nth opt_le_refl)
    next
      case True
      have w': "etl_watermark d' ! i
          = set_watermark (Some ?m) (Some (date_of ?m)) None (inserted st) (rejected_count st) ?w"
        by (simp add: some(2) nth True)
      have cons: "date_consistent (etl_watermark d' ! i)"
        by (simp add: w' date_consistent_def set_watermark_fields coalesce_def)
      have order: "opt_le (last_loaded_timestamp ?w) (Some ?m)
          \<and> (date_consistent ?w \<longrightarrow> opt_le (last_loaded_date ?w) (Some (date_of ?m)))"
        if one: "length (filter (selects ''fact_sales'' src) (etl_watermark d)) \<le> 1"
      proof -
        have get: "get_last_watermark (etl_watermark d) ''fact_sales'' src
            = Some (to_watermark ?w)"
          by (rule get_unique [OF one i True])
        have ts: "opt_le (last_loaded_timestamp ?w) (Some ?m)"
        proof (cases "last_loaded_timestamp ?w")
          case None
          then show ?thesis by (simp add: opt_le_def)
        next
          case (Some t)
          then have "t < ?m"
            using new_rows_after_timestamp [of "to_watermark ?w" df t] some(1) get
            by (simp add: to_watermark_def)
          then show ?thesis using Some by (simp add: opt_le_def)
        qed
        have dt: "opt_le (last_loaded_date ?w) (Some (date_of ?m))" if c: "date_consistent ?w"
        proof (cases "last_loaded_date ?w")
          case None
          then show ?thesis by (simp add: opt_le_def)
        next
          case dd: (Some dd)
          show ?thesis
          proof (cases "last_loaded_timestamp ?w")
            case None
            then have "dd < date_of ?m"
              using new_rows_after_date [of "to_watermark ?w" df dd] some(1) get dd
              by (simp add: to_watermark_def)
            then show ?thesis using dd by (simp add: opt_le_def)
          next
            case (Some t)
            then have "t < ?m"
              using new_rows_after_timestamp [of "to_watermark ?w" df t] some(1) get
              by (simp add: to_watermark_def)
            then have "date_of t \<le> date_of ?m"
              using date_of_mono [of t ?m] by simp
            moreover have "dd \<le> date_of t"
              using c Some dd by (simp add: date_consistent_def)
            ultimately show ?thesis using dd by (simp add: opt_le_def)
          qed
        qed
        from ts dt show ?thesis by simp
      qed
      show ?thesis
        using order cons True
        by (simp add: some(2) update_length update_keys nth set_watermark_fields coalesce_def
            watermark_key_def)
    qed
  qed
qed

lemma sample_max_stamp: "max_stamp sample_frame = 30"
  by (simp add: max_stamp_def sample_frame_def)

lemma sample_rows_nonempty: "rows sample_frame \<noteq> []"
  by (simp add: sample_frame_def)

lemma load_sample_watermark:
  assumes "new_records_fact (get_last_watermark (etl_watermark d) ''fact_sales'' src)
      sample_frame = sample_frame"
  shows "etl_watermark (fst (load_fact_sales_incremental no_faults d sample_frame src))
      = update_watermark (etl_watermark d) ''fact_sales'' src (Some 30) (Some 0) None 1 2"
    and "snd (load_fact_sales_incremental no_faults d sample_frame src)
      = Inr \<lparr>inserted = 1, rejected_count = 2, total = 3\<rparr>"
proof -
  have t: "length (rows sample_frame) = 3" "rows sample_frame \<noteq> []"
    by (simp_all add: sample_frame_def)
  have dz: "date_of 30 = 0"
    by (simp add: date_of_def)
  show "etl_watermark (fst (load_fact_sales_incremental no_faults d sample_frame src))
      = update_watermark (etl_watermark d) ''fact_sales'' src (Some 30) (Some 0) None 1 2"
    by (simp add: load_fact_sales_incremental_def Let_def no_faults_def assms sample_sorted
        sample_valid log_rejected_watermark sample_max_stamp t dz)
  show "snd (load_fact_sales_incremental no_faults d sample_frame src)
      = Inr \<lparr>inserted = 1, rejected_count = 2, total = 3\<rparr>"
    by (simp add: load_fact_sales_incremental_def Let_def no_faults_def assms sample_sorted
        sample_valid sample_max_stamp t dz)
qed

lemma loaded_new_records:
  "new_records_fact (get_last_watermark (etl_watermark loaded_db) ''fact_sales'' None)
      sample_frame = sample_frame"
  by (simp add: get_last_watermark_def loaded_db_def truthy_def to_watermark_def
      new_records_fact_def sample_frame_def)

lemma after_load_watermark:
  "etl_watermark after_load =
     [\<lparr>table_name = ''fact_sales'', source_system = Some ''RETAIL_OLTP'',
       last_loaded_timestamp = Some 30, last_loaded_date = Some 0,
       last_invoice_number = Some ''536365'', records_processed = 8, records_rejected = 5\<rparr>,
      \<lparr>table_name = ''dim_product'', source_system = Some ''RETAIL_OLTP'',
       last_loaded_timestamp = Some 500, last_loaded_date = Some 0,
       last_invoice_number = None, records_processed = 4, records_rejected = 0\<rparr>]"
  unfolding after_load_def load_sample_watermark(1) [OF loaded_new_records]
  by (simp add: loaded_db_def update_watermark_def truthy_def set_watermark_def coalesce_def)

theorem watermark_monotone_witness:
  "load_fact_sales_incremental no_faults loaded_db sample_frame None
     = (after_load, Inr \<lparr>inserted = 1, rejected_count = 2, total = 3\<rparr>)
   \<and> length (etl_watermark loaded_db) = 2
   \<and> selects ''fact_sales'' None (etl_watermark loaded_db ! 0)
   \<and> \<not> selects ''fact_sales'' None (etl_watermark loaded_db ! 1)
   \<and> length (filter (selects ''fact_sales'' None) (etl_watermark loaded_db)) \<le> 1
   \<and> date_consistent (etl_watermark loaded_db ! 0)
   \<and> last_loaded_timestamp (etl_watermark loaded_db ! 0) = Some (- 100)
   \<and> last_loaded_date (etl_watermark loaded_db ! 0) = Some (- 1)
   \<and> records_processed (etl_watermark loaded_db ! 0) = 7
   \<and> records_rejected (etl_watermark loaded_db ! 0) = 3
   \<and> opt_le (Some (- 100)) (last_loaded_timestamp (etl_watermark after_load ! 0))
   \<and> opt_le (Some (- 1)) (last_loaded_date (etl_watermark after_load ! 0))
   \<and> date_consistent (etl_watermark after_load ! 0)
   \<and> records_processed (etl_watermark after_load ! 0) = 7 + 1
   \<and> records_rejected (etl_watermark after_load ! 0) = 3 + 2
   \<and> last_invoice_number (etl_watermark after_load ! 0)
       = last_invoice_number (etl_watermark loaded_db ! 0)
   \<and> etl_watermark after_load ! 1 = etl_watermark loaded_db ! 1
   \<and> map last_loaded_timestamp (etl_watermark after_load) = [Some 30, Some 500]
   \<and> map last_loaded_date (etl_watermark after_load) = [Some 0, Some 0]"
proof -
  let ?l = "load_fact_sales_incremental no_faults loaded_db sample_frame None"
  have s: "snd ?l = Inr \<lparr>inserted = 1, rejected_count = 2, total = 3\<rparr>"
    by (rule load_sample_watermark(2) [OF loaded_new_records])
  have ok: "?l = (after_load, Inr \<lparr>inserted = 1, rejected_count = 2, total = 3\<rparr>)"
    using s by (simp add: prod_eq_iff after_load_def)
  have len: "length (etl_watermark loaded_db) = 2"
    and i: "0 < length (etl_watermark loaded_db)" "1 < length (etl_watermark loaded_db)"
    by (simp_all add: loaded_db_def)
  have sel: "selects ''fact_sales'' None (etl_watermark loaded_db ! 0)"
    "\<not> selects ''fact_sales'' None (etl_watermark loaded_db ! 1)"
    "length (filter (selects ''fact_sales'' None) (etl_watermark loaded_db)) \<le> 1"
    by (simp_all add: loaded_db_def selects_def truthy_def)
  have c: "date_consistent (etl_watermark loaded_db ! 0)"
    by (simp add: loaded_db_def date_consistent_def date_of_def)
  have z: "last_loaded_timestamp (etl_watermark loaded_db ! 0) = Some (- 100)"
    "last_loaded_date (etl_watermark loaded_db ! 0) = Some (- 1)"
    "records_processed (etl_watermark loaded_db ! 0) = 7"
    "records_rejected (etl_watermark loaded_db ! 0) = 3"
    by (simp_all add: loaded_db_def)
  have v: "map last_loaded_timestamp (etl_watermark after_load) = [Some 30, Some 500]"
    "map last_loaded_date (etl_watermark after_load) = [Some 0, Some 0]"
    by (simp_all add: after_load_watermark)
  show ?thesis
    using watermark_monotone [OF ok i(1)] watermark_monotone [OF ok i(2)] ok len sel c z v
    by simp
qed

text \<open>
  Claim C6 as stated fails: the update overwrites the date with the day of the greatest
  source timestamp, without comparing. On a row with a timestamp on day 0 and the date of
  day 5, a successful load of the sample batch (all of day 0) moves the date back to
  day 0.
\<close>

lemma skewed_new_records:
  "new_records_fact (get_last_watermark (etl_watermark skewed_db) ''fact_sales''
      (Some ''RETAIL_OLTP'')) sample_frame = sample_frame"
  by (simp add: get_last_watermark_def skewed_db_def truthy_def to_watermark_def
      new_records_fact_def sample_frame_def)

theorem watermark_date_moves_back:
  "snd (load_fact_sales_incremental no_faults skewed_db sample_frame (Some ''RETAIL_OLTP''))
     = Inr \<lparr>inserted = 1, rejected_count = 2, total = 3\<rparr>
   \<and> map last_loaded_date (etl_watermark skewed_db) = [Some 5]
   \<and> map last_loaded_date (etl_watermark
        (fst (load_fact_sales_incremental no_faults skewed_db sample_frame
                (Some ''RETAIL_OLTP'')))) = [Some 0]
   \<and> \<not> opt_le (Some 5) (Some 0)"
  by (simp add: load_sample_watermark [OF skewed_new_records] opt_le_def)
    (simp add: skewed_db_def update_watermark_def truthy_def set_watermark_def coalesce_def)

text \<open>
  The timestamp moves back as well when the \<open>WHERE\<close> clause selects several rows. A load
  that passes no source system reads the row that \<open>ORDER BY last_loaded_timestamp DESC\<close>
  puts first, the one without a timestamp, takes the whole sample batch as new and writes
  second 30 to every row of \<open>fact_sales\<close>, also to the row that stood at second 100.
\<close>

lemma two_source_new_records:
  "new_records_fact (get_last_watermark (etl_watermark two_source_db) ''fact_sales'' None)
      sample_frame = sample_frame"
  by (simp add: get_last_watermark_def two_source_db_def truthy_def to_watermark_def
      new_records_fact_def sorts_before_def)

lemma unsourced_load_moves_timestamp_back:
  "snd (load_fact_sales_incremental no_faults two_source_db sample_frame None)
     = Inr \<lparr>inserted = 1, rejected_count = 2, total = 3\<rparr>
   \<and> map last_loaded_timestamp (etl_watermark two_source_db) = [None, Some 100]
   \<and> map last_loaded_timestamp (etl_watermark
        (fst (load_fact_sales_incremental no_faults two_source_db sample_frame None)))
      = [Some 30, Some 30]
   \<and> \<not> opt_le (Some 100) (Some 30)"
  by (simp add: load_sample_watermark [OF two_source_new_records] opt_le_def)
    (simp add: two_source_db_def update_watermark_def truthy_def set_watermark_def coalesce_def)

section \<open>Properties of the customer dimension\<close>

lemma current_count_append:
  "current_count (tbl @ [r]) cid =
     current_count tbl cid + (if customer_id r = cid \<and> is_current r then 1 else 0)"
  by (simp add: current_count_def)

lemma current_count_expire_le:
  "current_count (expire today ck tbl) cid \<le> current_count tbl cid"
  unfolding current_count_def expire_def
  by (induction tbl) auto

lemma current_row_None:
  "current_row tbl cid = None \<Longrightarrow> current_count tbl cid = 0"
  by (auto simp: current_row_def current_count_def find_None_iff filter_empty_conv)

lemma current_row_Some:
  "current_row tbl cid = Some r \<Longrightarrow> r \<in> set tbl \<and> customer_id r = cid \<and> is_current r"
  by (auto simp: current_row_def find_Some_iff)

lemma count_one_unique:
  assumes "length (filter P xs) \<le> 1" "x \<in> set xs" "P x" "y \<in> set xs" "P y"
  shows "x = y"
proof (rule ccontr)
  assume "x \<noteq> y"
  then have "distinct [x, y]" "set [x, y] \<subseteq> set (filter P xs)"
    using assms by auto
  then have "length [x, y] \<le> card (set (filter P xs))"
    by (metis card_mono distinct_card List.finite_set)
  also have "\<dots> \<le> length (filter P xs)" by (rule card_length)
  finally show False using assms(1) by simp
qed

lemma expire_current_gone:
  assumes "current_count tbl cid \<le> 1" "current_row tbl cid = Some r"
  shows "current_count (expire today (customer_key r) tbl) cid = 0"
proof -
  from current_row_Some [OF assms(2)]
  have r: "r \<in> set tbl" "customer_id r = cid" "is_current r" by auto
  have "\<And>x. x \<in> set tbl \<Longrightarrow> customer_id x = cid \<Longrightarrow> is_current x \<Longrightarrow> x = r"
    using count_one_unique [of "\<lambda>r. customer_id r = cid \<and> is_current r" tbl _ r] assms(1) r
    by (auto simp: current_count_def)
  then show ?thesis
    by (auto simp: current_count_def expire_def filter_empty_conv)
qed

lemma one_current_insert:
  assumes "one_current tbl" "current_count tbl (in_customer_id row) = 0"
  shows "one_current (tbl @ [new_version today ck row])"
  using assms
  by (auto simp: one_current_def current_count_append new_version_def)

lemma one_current_expire: "one_current tbl \<Longrightarrow> one_current (expire today ck tbl)"
  unfolding one_current_def
  by (meson current_count_expire_le le_trans)

lemma scd_upsert_one_current:
  assumes "one_current (dim_customer s)"
  shows "one_current (dim_customer (scd_upsert today s row))"
proof (cases "current_row (dim_customer s) (in_customer_id row)")
  case None
  then show ?thesis
    using one_current_insert [OF assms current_row_None [OF None]]
    by (simp add: scd_upsert_def insert_version_def)
next
  case (Some r)
  have "current_count (dim_customer s) (in_customer_id row) \<le> 1"
    using assms by (simp add: one_current_def)
  from expire_current_gone [OF this Some]
  have "one_current (expire today (customer_key r) (dim_customer s)
          @ [new_version today (next_customer_key s) row])"
    by (rule one_current_insert [OF one_current_expire [OF assms]])
  then show ?thesis
    using Some assms by (simp add: scd_upsert_def insert_version_def)
qed

lemma simple_upsert_one_current:
  assumes "one_current (dim_customer s)"
  shows "one_current (dim_customer (simple_upsert today s p))"
proof (cases "current_row (dim_customer s) (fst p)")
  case None
  have i: "in_customer_id (simple_in p) = fst p" by (simp add: simple_in_def)
  show ?thesis
    using one_current_insert [OF assms, where row = "simple_in p"] current_row_None [OF None] None
    by (simp add: simple_upsert_def insert_version_def i)
next
  case (Some r)
  have i: "in_customer_id (simple_in p) = fst p" by (simp add: simple_in_def)
  have "current_count (dim_customer s) (fst p) \<le> 1"
    using assms by (simp add: one_current_def)
  from expire_current_gone [OF this Some]
  have "one_current (expire today (customer_key r) (dim_customer s)
          @ [new_version today (next_customer_key s) (simple_in p)])"
    using one_current_insert [OF one_current_expire [OF assms], where row = "simple_in p"]
    by (simp add: i)
  then show ?thesis
    using Some assms by (simp add: simple_upsert_def insert_version_def)
qed

lemma load_customers_one_current:
  "one_current (dim_customer s) \<Longrightarrow> one_current (dim_customer (load_customers today s batch))"
  unfolding load_customers_def
  by (induction batch arbitrary: s) (simp_all add: scd_upsert_one_current)

lemma load_customers_simple_one_current:
  "one_current (dim_customer s) \<Longrightarrow>
   one_current (dim_customer (load_customers_simple today s batch))"
  unfolding load_customers_simple_def
  by (induction batch arbitrary: s) (simp_all add: simple_upsert_one_current)


text \<open>
  Claim C4. Starting from a \<open>dim_customer\<close> table in which every customer has at most one
  current row, every step of the two customer loaders (insert for a new customer, expire
  and insert on a change, skip when nothing changed) and every batch of such steps leaves
  a table in which every customer has at most one current row.
\<close>

theorem scd_exclusivity:
  assumes "one_current (dim_customer s)"
  shows "one_current (dim_customer (scd_upsert today s row))
    \<and> one_current (dim_customer (load_customers today s batch))
    \<and> one_current (dim_customer (simple_upsert today s p))
    \<and> one_current (dim_customer (load_customers_simple today s pairs))"
  using assms
  by (simp add: scd_upsert_one_current load_customers_one_current simple_upsert_one_current
      load_customers_simple_one_current)

lemma one_current_sample: "one_current (dim_customer sample_run)"
  by (simp add: one_current_def current_count_def sample_run_def)

lemma sample_load_table:
  "dim_customer (load_customers 20000 sample_run [ny_in, ca_in, ny_in]) =
     [ca_row\<lparr>expiry_date := 20000, is_current := False\<rparr>,
      (new_version 20000 2 ny_in)\<lparr>expiry_date := 20000, is_current := False\<rparr>,
      (new_version 20000 3 ca_in)\<lparr>expiry_date := 20000, is_current := False\<rparr>,
      new_version 20000 4 ny_in]"
  by (simp add: load_customers_def scd_upsert_def insert_version_def current_row_def
      expire_def new_version_def py_ne_def sample_run_def ca_row_def ny_in_def ca_in_def)

theorem scd_exclusivity_witness:
  "one_current (dim_customer sample_run)
   \<and> one_current (dim_customer (load_customers 20000 sample_run [ny_in, ca_in, ny_in]))
   \<and> current_count (dim_customer (load_customers 20000 sample_run [ny_in, ca_in, ny_in])) 101
       = 1
   \<and> length (dim_customer (load_customers 20000 sample_run [ny_in, ca_in, ny_in])) = 4"
proof -
  have c: "current_count (dim_customer (load_customers 20000 sample_run [ny_in, ca_in, ny_in]))
      101 = 1"
    unfolding sample_load_table
    by (simp add: current_count_def new_version_def ny_in_def ca_in_def ca_row_def)
  show ?thesis
    using scd_exclusivity [OF one_current_sample, of 20000 ny_in "[ny_in, ca_in, ny_in]"]
      one_current_sample c
    by (simp add: sample_load_table)
qed

lemma key_unique:
  assumes "distinct (map customer_key tbl)" "cur \<in> set tbl" "r \<in> set tbl"
  shows "customer_key r = customer_key cur \<longleftrightarrow> r = cur"
  using assms by (auto simp: distinct_map dest: inj_onD)

lemma expire_only_current:
  assumes "distinct (map customer_key tbl)" "cur \<in> set tbl"
  shows "expire today (customer_key cur) tbl =
     map (\<lambda>r. if r = cur then cur\<lparr>expiry_date := today, is_current := False\<rparr> else r) tbl"
  unfolding expire_def
  by (rule map_cong) (use key_unique [OF assms] in auto)

text \<open>
  The step on a customer that has the current row \<open>cur\<close>. When none of the three
  comparisons of the loop finds a difference, the table stays as it is and the step counts
  a skip. Otherwise the rows with the surrogate key of \<open>cur\<close> (with unique surrogate keys:
  \<open>cur\<close> alone) get \<open>expiry_date = today\<close> and \<open>is_current = false\<close>, exactly one row
  with the incoming values is appended, current, starting today and expiring at the
  sentinel date, and the step counts an update.
\<close>

lemma scd_upsert_postcondition:
  assumes cur: "current_row (dim_customer s) (in_customer_id row) = Some cur"
  shows "(\<not> (py_ne (state cur) (in_state row) \<or> py_ne (email cur) (in_email row)
            \<or> py_ne (customer_segment cur) (in_segment row)) \<longrightarrow>
          dim_customer (scd_upsert today s row) = dim_customer s
          \<and> rows_updated (scd_upsert today s row) = rows_updated s
          \<and> rows_inserted (scd_upsert today s row) = rows_inserted s
          \<and> rows_skipped (scd_upsert today s row) = rows_skipped s + 1)
    \<and> (py_ne (state cur) (in_state row) \<or> py_ne (email cur) (in_email row)
            \<or> py_ne (customer_segment cur) (in_segment row) \<longrightarrow>
          dim_customer (scd_upsert today s row) =
            expire today (customer_key cur) (dim_customer s)
              @ [new_version today (next_customer_key s) row]
          \<and> rows_updated (scd_upsert today s row) = rows_updated s + 1
          \<and> rows_inserted (scd_upsert today s row) = rows_inserted s
          \<and> rows_skipped (scd_upsert today s row) = rows_skipped s
          \<and> (distinct (map customer_key (dim_customer s)) \<longrightarrow>
               expire today (customer_key cur) (dim_customer s) =
                 map (\<lambda>r. if r = cur then cur\<lparr>expiry_date := today, is_current := False\<rparr>
                          else r) (dim_customer s)))
    \<and> cur \<in> set (dim_customer s) \<and> customer_id cur = in_customer_id row \<and> is_current cur"
proof -
  note c = current_row_Some [OF cur]
  have same: "\<not> (py_ne (state cur) (in_state row) \<or> py_ne (email cur) (in_email row)
      \<or> py_ne (customer_segment cur) (in_segment row)) \<longrightarrow>
      scd_upsert today s row = s\<lparr>rows_skipped := rows_skipped s + 1\<rparr>"
    using cur by (simp add: scd_upsert_def)
  have changed: "py_ne (state cur) (in_state row) \<or> py_ne (email cur) (in_email row)
      \<or> py_ne (customer_segment cur) (in_segment row) \<longrightarrow>
      scd_upsert today s row =
        (insert_version today row
           (s\<lparr>dim_customer := expire today (customer_key cur) (dim_customer s)\<rparr>))
        \<lparr>rows_updated := rows_updated s + 1\<rparr>"
    using cur by (auto simp add: scd_upsert_def)
  have only: "distinct (map customer_key (dim_customer s)) \<longrightarrow>
      expire today (customer_key cur) (dim_customer s) =
        map (\<lambda>r. if r = cur then cur\<lparr>expiry_date := today, is_current := False\<rparr> else r)
          (dim_customer s)"
    using expire_only_current [of "dim_customer s" cur today] c by blast
  show ?thesis
    using same changed only c
    by (auto simp add: insert_version_def)
qed

lemma sample_upsert_changed:
  "dim_customer (scd_upsert 20000 sample_run ny_in) =
     [ca_row\<lparr>expiry_date := 20000, is_current := False\<rparr>, new_version 20000 2 ny_in]
   \<and> rows_updated (scd_upsert 20000 sample_run ny_in) = 1"
  by (simp add: scd_upsert_def insert_version_def current_row_def expire_def py_ne_def
      sample_run_def ca_row_def ny_in_def)

lemma sample_upsert_unchanged:
  "dim_customer (scd_upsert 20000 sample_run ca_in) = [ca_row]
   \<and> rows_updated (scd_upsert 20000 sample_run ca_in) = 0
   \<and> rows_skipped (scd_upsert 20000 sample_run ca_in) = 1"
  by (simp add: scd_upsert_def current_row_def py_ne_def sample_run_def ca_row_def ca_in_def)

text \<open>
  Claim C7 (the code departs from it). The claim: a row whose state, email and segment
  equal those of the current row of its customer leaves the table unchanged and adds
  nothing to the updated count. The code compares with \<open>!=\<close>, and a \<open>NaN\<close> differs from
  itself: customer 202, whom the second source does not know, comes in with \<open>NaN\<close> in
  email and segment; the current row holds the very values of the incoming row, and the
  step still expires it, appends a second version and counts an update. On attributes
  without \<open>NaN\<close> the step does what the claim says (\<open>scd_upsert_postcondition\<close>).
\<close>

theorem unchanged_nan_customer_versioned:
  "current_row (dim_customer nan_run) (in_customer_id nan_in) = Some (new_version 19000 1 nan_in)
   \<and> state (new_version 19000 1 nan_in) = in_state nan_in
   \<and> email (new_version 19000 1 nan_in) = in_email nan_in
   \<and> customer_segment (new_version 19000 1 nan_in) = in_segment nan_in
   \<and> dim_customer (scd_upsert 20000 nan_run nan_in) =
       [(new_version 19000 1 nan_in)\<lparr>expiry_date := 20000, is_current := False\<rparr>,
        new_version 20000 2 nan_in]
   \<and> rows_updated (scd_upsert 20000 nan_run nan_in) = 1
   \<and> rows_skipped (scd_upsert 20000 nan_run nan_in) = 0"
  by (simp add: scd_upsert_def insert_version_def current_row_def expire_def py_ne_def
      nan_run_def nan_in_def new_version_def)

section \<open>Properties of the dimension upsert\<close>

lemma map_of_set_cell:
  "map_of (set_cell c v cs) c' = (if c' = c then Some v else map_of cs c')"
  by (induction cs) auto

lemma map_of_fold_set_cell:
  "distinct (map fst new) \<Longrightarrow>
   map_of (fold (\<lambda>(c, v) cs. if c = k then cs else set_cell c v cs) new cs) c =
     (if c \<noteq> k \<and> c \<in> set (map fst new) then map_of new c else map_of cs c)"
proof (induction new arbitrary: cs)
  case Nil
  show ?case by simp
next
  case (Cons p new)
  obtain d w where p: "p = (d, w)" by (cases p)
  from Cons.prems have dist: "distinct (map fst new)" and fresh: "d \<notin> set (map fst new)"
    by (simp_all add: p)
  show ?case
  proof (cases "d = k")
    case True
    then show ?thesis
      using Cons.IH [OF dist, of cs] by (auto simp: p)
  next
    case False
    then show ?thesis
      using Cons.IH [OF dist, of "set_cell d w cs"] fresh
      by (auto simp: p map_of_set_cell)
  qed
qed

lemma cell_overwrite:
  "distinct (map fst (cells row)) \<Longrightarrow>
   cell (overwrite k row r) c =
     (if c \<noteq> k \<and> c \<in> set (map fst (cells row)) then cell row c else cell r c)"
  by (simp add: cell_def overwrite_def map_of_fold_set_cell)

lemma cell_overwrite_key: "cell (overwrite k row r) k = cell r k"
proof -
  have "map_of (fold (\<lambda>(c, v) cs. if c = k then cs else set_cell c v cs) new cs) k = map_of cs k"
    for new cs
    by (induction new arbitrary: cs) (auto simp: map_of_set_cell)
  then show ?thesis
    by (simp add: cell_def overwrite_def)
qed

lemma count_overwrite:
  "length (filter (\<lambda>r. cell r k = x)
      (map (\<lambda>r. if key_matches k row r then overwrite k row r else r) tbl))
   = length (filter (\<lambda>r. cell r k = x) tbl)"
  by (induction tbl) (auto simp: cell_overwrite_key)

text \<open>One step of the loop that does not raise.\<close>

lemma upsert_rows_step:
  assumes "upsert_rows cols k (row # batch) (tbl, i, u) = Inr res"
  shows "k \<in> set (map fst (cells row)) \<and> k \<in> set cols \<and>
         (if 0 < length (filter (key_matches k row) tbl)
          then upsert_rows cols k batch
                 (map (\<lambda>r. if key_matches k row r then overwrite k row r else r) tbl, i, u + 1)
               = Inr res
               \<and> unknown_columns cols (filter (\<lambda>c. c \<noteq> k) (map fst (cells row))) = []
          else upsert_rows cols k batch (tbl @ [row], i + 1, u) = Inr res
               \<and> unknown_columns cols (map fst (cells row)) = [])"
  using assms by (simp split: if_splits list.splits)

lemma upsert_rows_count:
  "upsert_rows cols k batch (tbl, i, u) = Inr (tbl2, i2, u2) \<Longrightarrow>
   length (filter (\<lambda>r. cell r k = x) tbl) \<le> length (filter (\<lambda>r. cell r k = x) tbl2)
   \<and> length tbl \<le> length tbl2
   \<and> i2 + u2 = i + u + length batch"
proof (induction batch arbitrary: tbl i u)
  case Nil
  then show ?case by simp
next
  case (Cons row batch)
  note step = upsert_rows_step [OF Cons.prems]
  show ?case
  proof (cases "0 < length (filter (key_matches k row) tbl)")
    case True
    with step have run: "upsert_rows cols k batch
        (map (\<lambda>r. if key_matches k row r then overwrite k row r else r) tbl, i, u + 1)
        = Inr (tbl2, i2, u2)"
      by simp
    show ?thesis
      using Cons.IH [OF run] count_overwrite [of k x row tbl]
      by simp
  next
    case False
    with step have run: "upsert_rows cols k batch (tbl @ [row], i + 1, u) = Inr (tbl2, i2, u2)"
      by simp
    have "length (filter (\<lambda>r. cell r k = x) tbl)
        \<le> length (filter (\<lambda>r. cell r k = x) (tbl @ [row]))"
      by simp
    then show ?thesis
      using Cons.IH [OF run] by (simp del: filter_append)
  qed
qed

text \<open>
  Claim C2, as amended. In dimension mode a valid row is written by a plain upsert on its
  key, not as a new version. For a row with distinct column names whose write does not
  raise: when the table holds rows with the row's key, the table keeps its size, every
  such stored row gets the timestamp of the incoming row and, in every column of the
  incoming row but the key, the incoming value, while it keeps its other columns and its
  key; the other stored rows stay as they are; and the row counts as updated. No row is
  closed and no version is added. Otherwise the row is appended and counts as inserted.
  Over a batch that does not raise, the number of stored rows with a given key never
  decreases, neither does the size of the table, and every row of the batch counts once,
  as inserted or as updated. A row that lacks the key column raises \<open>KeyError\<close>.
\<close>

theorem upsert_rows_in_place:
  assumes one: "upsert_rows cols k [row] (tbl, i, u) = Inr (tbl', i', u')"
    and dist: "distinct (map fst (cells row))"
    and many: "upsert_rows cols k batch (tbl, i, u) = Inr (tbl2, i2, u2)"
  shows "(if 0 < length (filter (key_matches k row) tbl)
          then length tbl' = length tbl \<and> i' = i \<and> u' = u + 1 \<and>
               (\<forall>j < length tbl.
                  if key_matches k row (tbl ! j)
                  then stamp (tbl' ! j) = stamp row \<and>
                       (\<forall>c. cell (tbl' ! j) c =
                              (if c \<noteq> k \<and> c \<in> set (map fst (cells row)) then cell row c
                               else cell (tbl ! j) c))
                  else tbl' ! j = tbl ! j)
          else tbl' = tbl @ [row] \<and> i' = i + 1 \<and> u' = u)
       \<and> length (filter (\<lambda>r. cell r k = x) tbl) \<le> length (filter (\<lambda>r. cell r k = x) tbl2)
       \<and> length tbl \<le> length tbl2
       \<and> i2 + u2 = i + u + length batch
       \<and> (k \<notin> set (map fst (cells krow)) \<longrightarrow>
          upsert_rows cols k (krow # rest) (tbl, i, u) = Inl (KeyError k))"
proof -
  note step = upsert_rows_step [OF one]
  have a: "if 0 < length (filter (key_matches k row) tbl)
         then length tbl' = length tbl \<and> i' = i \<and> u' = u + 1 \<and>
              (\<forall>j < length tbl.
                 if key_matches k row (tbl ! j)
                 then stamp (tbl' ! j) = stamp row \<and>
                      (\<forall>c. cell (tbl' ! j) c =
                             (if c \<noteq> k \<and> c \<in> set (map fst (cells row)) then cell row c
                              else cell (tbl ! j) c))
                 else tbl' ! j = tbl ! j)
         else tbl' = tbl @ [row] \<and> i' = i + 1 \<and> u' = u"
  proof (cases "0 < length (filter (key_matches k row) tbl)")
    case True
    with step have t: "tbl' = map (\<lambda>r. if key_matches k row r then overwrite k row r else r) tbl"
      and c: "i' = i" "u' = u + 1"
      by simp_all
    have st: "stamp (overwrite k row r) = stamp row" for r
      by (simp add: overwrite_def)
    show ?thesis
      using True c by (simp add: t st cell_overwrite [OF dist])
  next
    case False
    with step show ?thesis by simp
  qed
  have b: "length (filter (\<lambda>r. cell r k = x) tbl) \<le> length (filter (\<lambda>r. cell r k = x) tbl2)"
    and c: "length tbl \<le> length tbl2"
    and d: "i2 + u2 = i + u + length batch"
    using upsert_rows_count [OF many, of x] by simp_all
  have e: "k \<notin> set (map fst (cells krow)) \<longrightarrow>
         upsert_rows cols k (krow # rest) (tbl, i, u) = Inl (KeyError k)"
    by simp
  show ?thesis
    by (intro conjI a b c d e)
qed

lemma ny_upsert:
  "upsert_rows customer_columns ''customer_id'' ny_batch (ca_city_table, 0, 0) =
     Inr (ny_city_table, 0, 1)"
  by (simp add: ny_batch_def ca_city_table_def ny_city_table_def customer_columns_def
      key_matches_def sql_eq_def cell_def overwrite_def unknown_columns_def)

theorem upsert_rows_in_place_witness:
  "upsert_rows customer_columns ''customer_id'' [hd ny_batch] (ca_city_table, 0, 0) =
     Inr (ny_city_table, 0, 1)
   \<and> distinct (map fst (cells (hd ny_batch)))
   \<and> key_matches ''customer_id'' (hd ny_batch) (ca_city_table ! 0)
   \<and> \<not> key_matches ''customer_id'' (hd ny_batch) (ca_city_table ! 1)
   \<and> length ny_city_table = length ca_city_table
   \<and> stamp (ny_city_table ! 0) = stamp (hd ny_batch)
   \<and> cell (ny_city_table ! 0) ''state'' = cell (hd ny_batch) ''state''
   \<and> cell (ny_city_table ! 0) ''city'' = cell (ca_city_table ! 0) ''city''
   \<and> cell (ny_city_table ! 0) ''customer_id'' = cell (ca_city_table ! 0) ''customer_id''
   \<and> ny_city_table ! 1 = ca_city_table ! 1
   \<and> cell (hd ny_batch) ''state'' = Str ''NY''
   \<and> cell (ca_city_table ! 0) ''state'' = Str ''CA''
   \<and> cell (ca_city_table ! 0) ''city'' = Str ''Fresno''
   \<and> length (filter (\<lambda>r. cell r ''customer_id'' = Num 1) ca_city_table)
       \<le> length (filter (\<lambda>r. cell r ''customer_id'' = Num 1) ny_city_table)
   \<and> (0::nat) + 1 = 0 + 0 + length ny_batch
   \<and> ''customer_id'' \<notin> set (map fst (cells (hd keyless_batch)))
   \<and> upsert_rows customer_columns ''customer_id'' (hd keyless_batch # []) (ca_city_table, 0, 0) =
       Inl (KeyError ''customer_id'')"
proof -
  have b: "[hd ny_batch] = ny_batch"
    by (simp add: ny_batch_def)
  have one: "upsert_rows customer_columns ''customer_id'' [hd ny_batch] (ca_city_table, 0, 0)
      = Inr (ny_city_table, 0, 1)"
    unfolding b by (rule ny_upsert)
  have dist: "distinct (map fst (cells (hd ny_batch)))"
    by (simp add: ny_batch_def)
  have ms: "0 < length (filter (key_matches ''customer_id'' (hd ny_batch)) ca_city_table)"
    "key_matches ''customer_id'' (hd ny_batch) (ca_city_table ! 0)"
    "\<not> key_matches ''customer_id'' (hd ny_batch) (ca_city_table ! 1)"
    by (simp_all add: ny_batch_def ca_city_table_def key_matches_def sql_eq_def cell_def)
  have len: "0 < length ca_city_table" "1 < length ca_city_table"
    by (simp_all add: ca_city_table_def)
  have nk: "''customer_id'' \<notin> set (map fst (cells (hd keyless_batch)))"
    by (simp add: keyless_batch_def)
  have in_state: "''state'' \<noteq> ''customer_id'' \<and> ''state'' \<in> set (map fst (cells (hd ny_batch)))"
    by (simp add: ny_batch_def)
  have not_city: "\<not> (''city'' \<noteq> ''customer_id'' \<and> ''city'' \<in> set (map fst (cells (hd ny_batch))))"
    by (simp add: ny_batch_def)
  have not_key: "\<not> (''customer_id'' \<noteq> ''customer_id''
      \<and> ''customer_id'' \<in> set (map fst (cells (hd ny_batch))))"
    by simp
  have vals: "cell (hd ny_batch) ''state'' = Str ''NY''"
    "cell (ca_city_table ! 0) ''state'' = Str ''CA''"
    "cell (ca_city_table ! 0) ''city'' = Str ''Fresno''"
    by (simp_all add: ny_batch_def ca_city_table_def cell_def)
  note inst = upsert_rows_in_place [OF one dist ny_upsert,
      where x = "Num 1" and krow = "hd keyless_batch" and rest = "[]"]
  note upd = inst [THEN conjunct1, unfolded if_P [OF ms(1)]]
  note cnt = inst [THEN conjunct2, THEN conjunct1]
  note tot = inst [THEN conjunct2, THEN conjunct2, THEN conjunct2, THEN conjunct1]
  from upd have size: "length ny_city_table = length ca_city_table"
    by (rule conjunct1)
  from upd have each: "\<forall>j < length ca_city_table.
      if key_matches ''customer_id'' (hd ny_batch) (ca_city_table ! j)
      then stamp (ny_city_table ! j) = stamp (hd ny_batch) \<and>
           (\<forall>c. cell (ny_city_table ! j) c =
                  (if c \<noteq> ''customer_id'' \<and> c \<in> set (map fst (cells (hd ny_batch)))
                   then cell (hd ny_batch) c else cell (ca_city_table ! j) c))
      else ny_city_table ! j = ca_city_table ! j"
    by blast
  note r0 = each [rule_format, OF len(1), unfolded if_P [OF ms(2)]]
  note r1 = each [rule_format, OF len(2), unfolded if_not_P [OF ms(3)]]
  from r0 have st: "stamp (ny_city_table ! 0) = stamp (hd ny_batch)"
    by (rule conjunct1)
  from r0 have cs: "\<forall>c. cell (ny_city_table ! 0) c =
                  (if c \<noteq> ''customer_id'' \<and> c \<in> set (map fst (cells (hd ny_batch)))
                   then cell (hd ny_batch) c else cell (ca_city_table ! 0) c)"
    by (rule conjunct2)
  note state = cs [THEN spec, of "''state''", unfolded if_P [OF in_state]]
  note city = cs [THEN spec, of "''city''", unfolded if_not_P [OF not_city]]
  note key = cs [THEN spec, of "''customer_id''", unfolded if_not_P [OF not_key]]
  note ke = inst [THEN conjunct2, THEN conjunct2, THEN conjunct2, THEN conjunct2, THEN mp, OF nk]
  show ?thesis
    using one dist ms(2,3) size st state city key r1 vals cnt tot nk ke
    by blast
qed

text \<open>
  Claim C2 as stated fails: the upsert of customer 1 with state \<open>NY\<close> into a table that
  holds customer 1 with state \<open>CA\<close> leaves one row, the incoming one; the \<open>CA\<close> row is
  overwritten and no second version exists.
\<close>

theorem upsert_overwrites_counterexample:
  "upsert_rows customer_columns ''customer_id'' ny_batch (ca_table, 0, 0) = Inr (ny_batch, 0, 1)
   \<and> length ny_batch = length ca_table
   \<and> hd ca_table \<notin> set ny_batch"
  by (simp add: ny_batch_def ca_table_def customer_columns_def key_matches_def sql_eq_def
      cell_def overwrite_def unknown_columns_def)

section \<open>Properties of the fact load script\<close>

lemma dict_Some: "dict ps k = Some v \<Longrightarrow> (k, v) \<in> set ps"
  unfolding dict_def by (drule map_of_SomeD) simp

lemma dict_None: "dict ps k = None \<longleftrightarrow> k \<notin> fst ` set ps"
  by (simp add: dict_def map_of_eq_None_iff)

lemma fact_loop_eq:
  "fact_loop ymd pm cm sm df acc =
     acc @ map (fact_row_of ymd pm cm sm)
             (filter (\<lambda>r. pm (StockCode r) \<noteq> None \<and> cm (CustomerID r) \<noteq> None
                          \<and> sm (Country r) \<noteq> None) df)"
  by (induction df arbitrary: acc) simp_all

lemma resolvable_maps:
  "resolvable w r \<longleftrightarrow>
     product_map w (StockCode r) \<noteq> None \<and> customer_map w (CustomerID r) \<noteq> None
     \<and> store_map w (Country r) \<noteq> None"
proof -
  have p: "product_map w k \<noteq> None \<longleftrightarrow> list_ex (\<lambda>p. product_id p = k) (dim_product w)" for k
    by (force simp: product_map_def dict_None list_ex_iff image_iff)
  have c: "customer_map w k \<noteq> None
      \<longleftrightarrow> list_ex (\<lambda>c. is_current c \<and> customer_id c = k) (dim_customer_rows w)" for k
    by (force simp: customer_map_def dict_None list_ex_iff image_iff)
  have s: "store_map w k \<noteq> None \<longleftrightarrow> list_ex (\<lambda>s. region s = k) (dim_store w)" for k
    by (force simp: store_map_def dict_None list_ex_iff image_iff)
  show ?thesis
    unfolding resolvable_def p c s by (rule refl)
qed

lemma resolved_row:
  assumes "resolvable w r"
  shows "resolved_from w r (fact_row_of ymd (product_map w) (customer_map w) (store_map w) r)"
proof -
  from assms obtain pk ck sk where
    p: "product_map w (StockCode r) = Some pk" and
    c: "customer_map w (CustomerID r) = Some ck" and
    s: "store_map w (Country r) = Some sk"
    unfolding resolvable_maps by auto
  from dict_Some [OF p [unfolded product_map_def]]
  have 1: "list_ex (\<lambda>p. product_id p = StockCode r \<and> product_key p = pk) (dim_product w)"
    by (auto simp: list_ex_iff)
  from dict_Some [OF c [unfolded customer_map_def]]
  have 2: "list_ex (\<lambda>c. is_current c \<and> customer_id c = CustomerID r \<and> customer_key c = ck)
      (dim_customer_rows w)"
    by (auto simp: list_ex_iff)
  from dict_Some [OF s [unfolded store_map_def]]
  have 3: "list_ex (\<lambda>s. region s = Country r \<and> store_key s = sk) (dim_store w)"
    by (auto simp: list_ex_iff)
  show ?thesis
    using 1 2 3 by (simp add: resolved_from_def fact_row_of_def p c s)
qed

lemma script_result:
  assumes "load_fact_sales_script fails ymd w df = (w', Inr rep)"
  shows "fact_sales w' = fact_sales w
           @ fact_loop ymd (product_map w) (customer_map w) (store_map w) df []
       \<and> quarantine w' = quarantine w
       \<and> dim_product w' = dim_product w \<and> dim_customer_rows w' = dim_customer_rows w
       \<and> dim_store w' = dim_store w"
  using assms
  by (auto simp: load_fact_sales_script_def Let_def split: if_splits)

text \<open>
  Claim C9, as amended. In a run of the script that ends without an exception, the map of
  each dimension is read once, before the loop, and the rows appended to \<open>fact_sales\<close>
  are, in the order of the source, one row for every source row that has a product row, a
  current customer row and a store row for its natural keys; each of the three keys of an
  appended row is the surrogate key of such a dimension row, so no row goes in with a key
  missing. A source row without such rows is passed over: the dimensions and the
  quarantine table stay as they are, and nothing is recorded about the row.
\<close>

theorem fact_keys_resolved:
  assumes ok: "load_fact_sales_script fails ymd w df = (w', Inr rep)"
  shows "fact_sales w' = fact_sales w
           @ map (fact_row_of ymd (product_map w) (customer_map w) (store_map w))
               (filter (resolvable w) df)
       \<and> (\<forall>r \<in> set df. resolvable w r \<longrightarrow>
            resolved_from w r
              (fact_row_of ymd (product_map w) (customer_map w) (store_map w) r))
       \<and> length (fact_sales w') = length (fact_sales w) + length (filter (resolvable w) df)
       \<and> quarantine w' = quarantine w
       \<and> dim_product w' = dim_product w \<and> dim_customer_rows w' = dim_customer_rows w
       \<and> dim_store w' = dim_store w"
proof -
  have f: "(\<lambda>r. product_map w (StockCode r) \<noteq> None \<and> customer_map w (CustomerID r) \<noteq> None
                 \<and> store_map w (Country r) \<noteq> None) = resolvable w"
    by (rule ext) (simp add: resolvable_maps)
  have rows: "fact_sales w' = fact_sales w
           @ map (fact_row_of ymd (product_map w) (customer_map w) (store_map w))
               (filter (resolvable w) df)"
    using script_result [OF ok, unfolded fact_loop_eq f] by simp
  have keys: "\<forall>r \<in> set df. resolvable w r \<longrightarrow>
            resolved_from w r
              (fact_row_of ymd (product_map w) (customer_map w) (store_map w) r)"
    by (simp add: resolved_row)
  have len: "length (fact_sales w') = length (fact_sales w) + length (filter (resolvable w) df)"
    by (simp add: rows)
  show ?thesis
    using rows keys len script_result [OF ok] by blast
qed

lemma sample_maps:
  "product_map sample_warehouse = [''85123A'' \<mapsto> 1]"
  "customer_map sample_warehouse = [17850 \<mapsto> 5]"
  "store_map sample_warehouse = [''United Kingdom'' \<mapsto> 2]"
  by (simp_all add: product_map_def customer_map_def store_map_def dict_def
      sample_warehouse_def ca_row_def)

lemma sample_fact_rows:
  "fact_loop sample_ymd (product_map sample_warehouse) (customer_map sample_warehouse)
     (store_map sample_warehouse) sample_sales [] =
   [\<lparr>fact_customer_key = 5, fact_product_key = 1, fact_store_key = 2, time_key = 20101201,
     quantity_sold = 6, sales_amount = 12, discount_amount = 0\<rparr>]"
  unfolding sample_maps by (simp add: sample_sales_def fact_row_of_def sample_ymd_def)

lemma sample_script_run:
  "snd (load_fact_sales_script no_script_faults sample_ymd sample_warehouse sample_sales)
     = Inr (Some \<lparr>new_rows = 3, prepared = 1\<rparr>)"
proof -
  have n: "length sample_sales = 3"
    by (simp add: sample_sales_def)
  show ?thesis
    by (simp add: load_fact_sales_script_def Let_def sample_fact_rows n no_script_faults_def)
qed

lemma sample_resolvable:
  "filter (resolvable sample_warehouse) sample_sales = [hd sample_sales]"
  by (simp add: resolvable_def sample_warehouse_def sample_sales_def ca_row_def)

theorem fact_keys_resolved_witness:
  "load_fact_sales_script no_script_faults sample_ymd sample_warehouse sample_sales
     = (fst (load_fact_sales_script no_script_faults sample_ymd sample_warehouse sample_sales),
        Inr (Some \<lparr>new_rows = 3, prepared = 1\<rparr>))
   \<and> hd sample_sales \<in> set sample_sales
   \<and> resolvable sample_warehouse (hd sample_sales)
   \<and> fact_sales (fst (load_fact_sales_script no_script_faults sample_ymd sample_warehouse
        sample_sales))
      = fact_sales sample_warehouse
          @ map (fact_row_of sample_ymd (product_map sample_warehouse)
                   (customer_map sample_warehouse) (store_map sample_warehouse))
              [hd sample_sales]
   \<and> resolved_from sample_warehouse (hd sample_sales)
        (fact_row_of sample_ymd (product_map sample_warehouse)
           (customer_map sample_warehouse) (store_map sample_warehouse) (hd sample_sales))
   \<and> length (fact_sales (fst (load_fact_sales_script no_script_faults sample_ymd
        sample_warehouse sample_sales))) = length (fact_sales sample_warehouse) + 1
   \<and> quarantine (fst (load_fact_sales_script no_script_faults sample_ymd sample_warehouse
        sample_sales)) = quarantine sample_warehouse"
proof -
  let ?l = "load_fact_sales_script no_script_faults sample_ymd sample_warehouse sample_sales"
  have ok: "?l = (fst ?l, Inr (Some \<lparr>new_rows = 3, prepared = 1\<rparr>))"
    using sample_script_run by (simp add: prod_eq_iff)
  have m: "hd sample_sales \<in> set sample_sales"
    by (simp add: sample_sales_def)
  have r: "resolvable sample_warehouse (hd sample_sales)"
    by (simp add: resolvable_def sample_warehouse_def sample_sales_def ca_row_def)
  note inst = fact_keys_resolved [OF ok, unfolded sample_resolvable]
  from inst have rows: "fact_sales (fst ?l)
      = fact_sales sample_warehouse
          @ map (fact_row_of sample_ymd (product_map sample_warehouse)
                   (customer_map sample_warehouse) (store_map sample_warehouse))
              [hd sample_sales]"
    by (rule conjunct1)
  from inst m r have keys: "resolved_from sample_warehouse (hd sample_sales)
        (fact_row_of sample_ymd (product_map sample_warehouse)
           (customer_map sample_warehouse) (store_map sample_warehouse) (hd sample_sales))"
    by blast
  from inst have len: "length (fact_sales (fst ?l))
      = length (fact_sales sample_warehouse) + length [hd sample_sales]"
    and q: "quarantine (fst ?l) = quarantine sample_warehouse"
    by blast+
  from len have len1: "length (fact_sales (fst ?l)) = length (fact_sales sample_warehouse) + 1"
    by simp
  show ?thesis
    using ok m r rows keys len1 q by blast
qed

text \<open>
  Claim C9 as stated fails: a source row without its dimension rows is passed over
  without a reason. Of the three sample sales two lack a dimension row (a customer with
  no current row, an unknown product). The run appends the one fact row of the first
  sale, leaves the quarantine table empty and reports the two counts only.
\<close>

theorem unresolved_sales_dropped_silently:
  "load_fact_sales_script no_script_faults sample_ymd sample_warehouse sample_sales =
     (sample_warehouse
        \<lparr>fact_sales :=
           [\<lparr>fact_customer_key = 5, fact_product_key = 1, fact_store_key = 2,
             time_key = 20101201, quantity_sold = 6, sales_amount = 12,
             discount_amount = 0\<rparr>],
         watermarks :=
           [\<lparr>table_name = ''fact_sales'', source_system = Some ''RETAIL_OLTP'',
             last_loaded_timestamp = None, last_loaded_date = Some 0,
             last_invoice_number = Some ''536367'', records_processed = 1,
             records_rejected = 0\<rparr>]\<rparr>,
      Inr (Some \<lparr>new_rows = 3, prepared = 1\<rparr>))
   \<and> length sample_sales = 3
   \<and> length (filter (resolvable sample_warehouse) sample_sales) = 1
   \<and> quarantine (fst (load_fact_sales_script no_script_faults sample_ymd sample_warehouse
        sample_sales)) = []"
proof -
  have n: "length sample_sales = 3"
    by (simp add: sample_sales_def)
  have d: "date_of (Max (set (map InvoiceDate sample_sales))) = 0"
    by (simp add: sample_sales_def date_of_def)
  have i: "Max (set (map InvoiceNo sample_sales)) = ''536367''"
    by (simp add: sample_sales_def)
  have run: "load_fact_sales_script no_script_faults sample_ymd sample_warehouse sample_sales =
     (sample_warehouse
        \<lparr>fact_sales :=
           [\<lparr>fact_customer_key = 5, fact_product_key = 1, fact_store_key = 2,
             time_key = 20101201, quantity_sold = 6, sales_amount = 12,
             discount_amount = 0\<rparr>],
         watermarks :=
           [\<lparr>table_name = ''fact_sales'', source_system = Some ''RETAIL_OLTP'',
             last_loaded_timestamp = None, last_loaded_date = Some 0,
             last_invoice_number = Some ''536367'', records_processed = 1,
             records_rejected = 0\<rparr>]\<rparr>,
      Inr (Some \<lparr>new_rows = 3, prepared = 1\<rparr>))"
    unfolding load_fact_sales_script_def Let_def sample_fact_rows n d i
    by (simp add: no_script_faults_def sample_warehouse_def update_watermark_def truthy_def
        set_watermark_def coalesce_def)
  have q: "quarantine sample_warehouse = []"
    by (simp add: sample_warehouse_def)
  show ?thesis
    using n q by (simp add: run sample_resolvable)
qed

section \<open>Properties of the anomaly check\<close>











end
